theory Spec2Isabelle
  imports Complex_Main
begin

section \<open>Data model\<close>

text \<open>
  The analytics routes (server/routes/analytics.js) read and write production records of
  a document store. Numbers of the source are JavaScript numbers; unit counts, minutes,
  hours of the day and timestamps (milliseconds since the epoch) are integers here, and
  the ratios of the statistics are reals. A calendar date string \<open>YYYY-MM-DD\<close> is
  represented by its day number (days since the epoch), and the server's local time zone
  is taken to be UTC. A field that may be absent (\<open>undefined\<close> or \<open>null\<close>) is an
  \<open>option\<close>. Object identifiers are the strings that \<open>toString()\<close> gives. The hourly
  data of a record and the stoppages of a slot are document arrays: an object pushed to
  one is cast to a subdocument, a copy, so that what a route assigns to its own object
  after the push is not saved, while a slot or a stoppage found in the array is changed in
  place. The identifier that the store gives a new subdocument is not modelled; no route
  reads it before the save. The store keeps its records in a list, and a query for one
  record finds the first that matches. Queries are taken to succeed, so that the two read
  routes have no answer 500 here; a save may be rejected, and the two write routes answer
  500 then.
\<close>

type_synonym objectId = string

record Stoppage =
  sid :: "objectId option"
  reason :: string
  description :: "string option"
  startTime :: int
  endTime :: "int option"
  duration :: "int option"
  isPending :: bool
  isClassified :: bool
  sapNotificationNumber :: "string option"

record ('o, 'm) HourSlot =
  hour :: int
  unitsProduced :: int
  defectiveUnits :: int
  status :: "string option"
  runningMinutes :: int
  stoppageMinutes :: int
  operatorId :: "'o option"
  moldId :: "'m option"
  stoppages :: "Stoppage list"

record ('o, 'm) ProductionRecord =
  machineId :: objectId
  r_startTime :: int
  r_unitsProduced :: int
  r_defectiveUnits :: int
  r_operatorId :: "'o option"
  r_moldId :: "'m option"
  hourlyData :: "('o, 'm) HourSlot list"

record Machine =
  m_id :: objectId
  m_name :: string
  m_departmentId :: objectId
  m_status :: string

record User =
  u_id :: objectId
  username :: string

record Mold =
  mold_id :: objectId
  productionCapacityPerHour :: "int option"

record Shift =
  sh_startTime :: string
  sh_endTime :: string

record Config =
  shifts :: "Shift list"

record Store =
  machines :: "Machine list"
  userDocs :: "User list"
  moldDocs :: "Mold list"
  config :: "Config option"
  productionRecords :: "(objectId, objectId) ProductionRecord list"

text \<open>What a route answers: \<open>res.status(code).json(...)\<close>, with a message or a payload.\<close>

datatype 'a response = Message (code: nat) (message: string) | Json (code: nat) (payload: 'a)

section \<open>JavaScript helpers\<close>

text \<open>\<open>Array.prototype.findIndex\<close>: the index of the first element satisfying the
  predicate (\<open>None\<close> for the source's \<open>-1\<close>).\<close>

fun findIndex :: "('a \<Rightarrow> bool) \<Rightarrow> 'a list \<Rightarrow> nat option" where
  "findIndex P [] = None"
| "findIndex P (x # xs) = (if P x then Some 0 else map_option Suc (findIndex P xs))"

text \<open>White space as \<open>String.prototype.trim\<close> strips it, for code units below 256.\<close>

definition isWhiteSpace :: "char \<Rightarrow> bool" where
  "isWhiteSpace c = (of_char c \<in> {9, 10, 11, 12, 13, 32, 160 :: nat})"

definition trim :: "string \<Rightarrow> string" where
  "trim s = rev (dropWhile isWhiteSpace (rev (dropWhile isWhiteSpace s)))"

definition isDigit :: "char \<Rightarrow> bool" where
  "isDigit c = (48 \<le> (of_char c :: nat) \<and> (of_char c :: nat) \<le> 57)"

text \<open>The regular expression \<open>/^\d+$/\<close>: one or more characters, all decimal digits.\<close>

definition onlyDigits :: "string \<Rightarrow> bool" where
  "onlyDigits s = (s \<noteq> [] \<and> list_all isDigit s)"

text \<open>The value of \<open>x || 0\<close> for a number that may be absent.\<close>

definition orZero :: "int option \<Rightarrow> int" where
  "orZero x = (case x of None \<Rightarrow> 0 | Some n \<Rightarrow> n)"

text \<open>A string in a condition: absent and empty strings are falsy.\<close>

definition nonEmpty :: "string option \<Rightarrow> string option" where
  "nonEmpty x = (case x of None \<Rightarrow> None | Some s \<Rightarrow> if s = [] then None else Some s)"

definition msPerDay :: int where
  "msPerDay = 86400000"

text \<open>\<open>new Date(date + 'T00:00:00.000Z')\<close>.\<close>

definition dayStartUTC :: "int \<Rightarrow> int" where
  "dayStartUTC date = date * msPerDay"

text \<open>\<open>new Date(`${date}T${hour.toString().padStart(2, '0')}:00:00`)\<close>: the instant at
  which the hour of the date begins, for the hours 0 to 24 that a time of the day can
  name; for any other hour the date is invalid, which is \<open>None\<close>.\<close>

definition hourStart :: "int \<Rightarrow> int \<Rightarrow> int option" where
  "hourStart date h =
     (if 0 \<le> h \<and> h \<le> 24 then Some (dayStartUTC date + h * 3600000) else None)"

section \<open>POST /stoppage\<close>

record StoppageBody =
  b_machineId :: objectId
  b_hour :: int
  b_date :: int
  b_reason :: string
  b_description :: "string option"
  b_duration :: "int option"
  b_pendingStoppageId :: "string option"
  b_sapNotificationNumber :: "string option"

text \<open>\<open>!sapNotificationNumber || sapNotificationNumber.trim() === ''\<close>\<close>

definition sapMissing :: "string option \<Rightarrow> bool" where
  "sapMissing sap = (case nonEmpty sap of None \<Rightarrow> True | Some s \<Rightarrow> trim s = [])"

text \<open>\<open>sapNotificationNumber && !/^\d+$/.test(sapNotificationNumber.trim())\<close>\<close>

definition sapMalformed :: "string option \<Rightarrow> bool" where
  "sapMalformed sap = (case nonEmpty sap of None \<Rightarrow> False | Some s \<Rightarrow> \<not> onlyDigits (trim s))"

text \<open>\<open>stoppages.reduce((sum, s) => sum + (s.duration || 0), 0)\<close>\<close>

definition sumDurations :: "Stoppage list \<Rightarrow> int" where
  "sumDurations ss = foldl (\<lambda>sum s. sum + orZero (duration s)) 0 ss"

text \<open>The slot that the stoppage route creates for an hour without one.\<close>

definition newStoppageSlot :: "int \<Rightarrow> ('o, 'm) HourSlot" where
  "newStoppageSlot h =
     \<lparr>hour = h, unitsProduced = 0, defectiveUnits = 0, status = Some ''stoppage'',
      runningMinutes = 0, stoppageMinutes = 0, operatorId = None, moldId = None,
      stoppages = []\<rparr>"

text \<open>The stoppage built from the request, anchored at the hour of the date, as the
  stoppages of a slot cast it when it is pushed. Its end is the start plus the duration;
  without a duration the end is an invalid date. A stoppage with an invalid start or end
  cannot be cast, which is \<open>None\<close>.\<close>

definition newStoppage :: "StoppageBody \<Rightarrow> Stoppage option" where
  "newStoppage b =
     (case hourStart (b_date b) (b_hour b) of
        None \<Rightarrow> None
      | Some stoppageStart \<Rightarrow>
          (case b_duration b of
             None \<Rightarrow> None
           | Some d \<Rightarrow>
               Some \<lparr>sid = None, reason = b_reason b, description = b_description b,
                     startTime = stoppageStart, endTime = Some (stoppageStart + d * 60 * 1000),
                     duration = Some d, isPending = False, isClassified = True,
                     sapNotificationNumber =
                       (if b_reason b = ''breakdown'' then b_sapNotificationNumber b
                        else None)\<rparr>))"

text \<open>The \<open>findIndex\<close> of the pending branch: the first stoppage whose id is the
  reference or whose reason is unclassified.\<close>

definition pendingMatch :: "string \<Rightarrow> Stoppage \<Rightarrow> bool" where
  "pendingMatch pid s = ((case sid s of None \<Rightarrow> False | Some i \<Rightarrow> i = pid) \<or> reason s = ''unclassified'')"

definition stoppageIndex :: "string \<Rightarrow> Stoppage list \<Rightarrow> nat option" where
  "stoppageIndex pid ss = findIndex (pendingMatch pid) ss"

text \<open>The update of the pending stoppage found; \<open>now\<close> is the clock (\<open>new Date()\<close>),
  read as one instant for the duration and the end time.\<close>

definition finalizeStoppage :: "int \<Rightarrow> StoppageBody \<Rightarrow> Stoppage \<Rightarrow> Stoppage" where
  "finalizeStoppage now b pendingStoppage =
     (let actualDuration = (now - startTime pendingStoppage) div (1000 * 60);
          s1 = pendingStoppage\<lparr>reason := b_reason b, description := b_description b,
                 endTime := Some now, duration := Some actualDuration\<rparr>;
          s2 = (if b_reason b = ''breakdown''
                then s1\<lparr>sapNotificationNumber := b_sapNotificationNumber b\<rparr> else s1)
      in s2\<lparr>isPending := False, isClassified := True\<rparr>)"

text \<open>Lines 140 to 216 of the route, on an hour slot found in the record. The result
  is \<open>None\<close> when the stoppage to append cannot be cast: then the save is rejected.\<close>

definition stoppageOnSlot ::
  "int \<Rightarrow> StoppageBody \<Rightarrow> ('o, 'm) HourSlot \<Rightarrow> ('o, 'm) HourSlot option" where
  "stoppageOnSlot now b hourData =
     (let h1 =
        (case nonEmpty (b_pendingStoppageId b) of
           Some pid \<Rightarrow>
             (case stoppageIndex pid (stoppages hourData) of
                Some i \<Rightarrow>
                  Some (hourData\<lparr>stoppages :=
                    (stoppages hourData)[i := finalizeStoppage now b (stoppages hourData ! i)]\<rparr>)
              | None \<Rightarrow>
                  map_option (\<lambda>s. hourData\<lparr>stoppages := stoppages hourData @ [s]\<rparr>)
                    (newStoppage b))
         | None \<Rightarrow>
             map_option
               (\<lambda>s. let ss = stoppages hourData @ [s]
                    in hourData\<lparr>stoppages := ss, stoppageMinutes := sumDurations ss\<rparr>)
               (newStoppage b))
      in map_option (\<lambda>h. h\<lparr>status := Some ''stoppage''\<rparr>) h1)"

text \<open>Lines 125 to 216: find or create the hourly data of the hour, then update it. A
  slot found is a subdocument of the record and is changed in place. A slot created is
  pushed before it is updated (line 137): the record takes a copy of it as it is then,
  and the stoppage, the minutes and the status that lines 140 to 216 give to the
  route's own object are not saved.\<close>

definition stoppageOnRecord ::
  "int \<Rightarrow> StoppageBody \<Rightarrow> ('o, 'm) ProductionRecord \<Rightarrow> ('o, 'm) ProductionRecord option" where
  "stoppageOnRecord now b r =
     (case findIndex (\<lambda>h. hour h = b_hour b) (hourlyData r) of
        Some i \<Rightarrow>
          map_option (\<lambda>h. r\<lparr>hourlyData := (hourlyData r)[i := h]\<rparr>)
            (stoppageOnSlot now b (hourlyData r ! i))
      | None \<Rightarrow> Some (r\<lparr>hourlyData := hourlyData r @ [newStoppageSlot (b_hour b)]\<rparr>))"

text \<open>Modelled from the spec: models/ProductionRecord is not among the sources; a record
  created lazily on a first write has zero rollups and no record-level references.\<close>

definition newProductionRecord :: "objectId \<Rightarrow> int \<Rightarrow> ('o, 'm) ProductionRecord" where
  "newProductionRecord mid start =
     \<lparr>machineId = mid, r_startTime = start, r_unitsProduced = 0, r_defectiveUnits = 0,
      r_operatorId = None, r_moldId = None, hourlyData = []\<rparr>"

text \<open>\<open>ProductionRecord.findOne\<close> for a machine and a date: the first record of the
  machine that starts within the day.\<close>

definition findRecord :: "objectId \<Rightarrow> int \<Rightarrow> ('o, 'm) ProductionRecord list \<Rightarrow> nat option" where
  "findRecord mid date rs =
     findIndex (\<lambda>r. machineId r = mid \<and> dayStartUTC date \<le> r_startTime r
                  \<and> r_startTime r < dayStartUTC date + 86399999) rs"

text \<open>The whole route: the two validations, the record found or created, the update and
  the save; an exception on the way is caught and answered 500 (lines 252 to 255). The
  save is rejected when a stoppage cannot be cast, and when the store or the schema
  refuses the document: \<open>saves\<close> stands for that part of \<open>save()\<close>, which is not among the
  sources. The notification e-mail and the socket event change no record and their
  failure is swallowed; they are left out.\<close>

definition stoppage_route ::
  "((objectId, objectId) ProductionRecord \<Rightarrow> bool) \<Rightarrow> Store \<Rightarrow> int \<Rightarrow> StoppageBody
   \<Rightarrow> unit response \<times> Store" where
  "stoppage_route saves store now b =
     (if b_reason b = ''breakdown'' \<and> sapMissing (b_sapNotificationNumber b) then
        (Message 400 ''SAP notification number is required for breakdown stoppages'', store)
      else if b_reason b = ''breakdown'' \<and> sapMalformed (b_sapNotificationNumber b) then
        (Message 400 ''SAP notification number must contain only numbers'', store)
      else
        (let rs = productionRecords store;
             found = findRecord (b_machineId b) (b_date b) rs;
             productionRecord =
               (case found of
                  Some i \<Rightarrow> rs ! i
                | None \<Rightarrow> newProductionRecord (b_machineId b) (dayStartUTC (b_date b)))
         in case stoppageOnRecord now b productionRecord of
              None \<Rightarrow> (Message 500 ''Server error'', store)
            | Some r \<Rightarrow>
                if saves r then
                  (Message 201 ''Stoppage recorded successfully'',
                   store\<lparr>productionRecords :=
                     (case found of Some i \<Rightarrow> rs[i := r] | None \<Rightarrow> rs @ [r])\<rparr>)
                else (Message 500 ''Server error'', store)))"

section \<open>POST /production-assignment\<close>

record AssignmentBody =
  a_machineId :: objectId
  a_hour :: int
  a_date :: int
  a_operatorId :: "string option"
  a_moldId :: "string option"
  a_defectiveUnits :: "int option"
  a_applyToShift :: bool

text \<open>\<open>parseInt\<close> without a radix: leading white space, a sign, a hexadecimal prefix,
  then the longest prefix of digits; \<open>None\<close> is \<open>NaN\<close>.\<close>

definition digitOf :: "nat \<Rightarrow> char \<Rightarrow> nat option" where
  "digitOf radix c =
     (let n = (of_char c :: nat);
          v = (if 48 \<le> n \<and> n \<le> 57 then Some (n - 48)
               else if 97 \<le> n \<and> n \<le> 122 then Some (n - 87)
               else if 65 \<le> n \<and> n \<le> 90 then Some (n - 55)
               else None)
      in case v of None \<Rightarrow> None | Some d \<Rightarrow> if d < radix then Some d else None)"

definition digitsValue :: "nat \<Rightarrow> string \<Rightarrow> int" where
  "digitsValue radix z =
     foldl (\<lambda>acc c. acc * int radix + int (case digitOf radix c of None \<Rightarrow> 0 | Some d \<Rightarrow> d)) 0 z"

definition parseInt :: "string \<Rightarrow> int option" where
  "parseInt str =
     (let s = dropWhile isWhiteSpace str;
          neg = (case s of [] \<Rightarrow> False | c # _ \<Rightarrow> c = CHR ''-'');
          s1 = (case s of [] \<Rightarrow> s | c # cs \<Rightarrow> if c = CHR ''-'' \<or> c = CHR ''+'' then cs else s);
          hex = (take 2 s1 = ''0x'' \<or> take 2 s1 = ''0X'');
          radix = (if hex then 16 else 10);
          s2 = (if hex then drop 2 s1 else s1);
          z = takeWhile (\<lambda>c. digitOf radix c \<noteq> None) s2
      in if z = [] then None else Some ((if neg then - 1 else 1) * digitsValue radix z))"

text \<open>\<open>parseInt(time.split(':')[0])\<close>\<close>

definition hourOf :: "string \<Rightarrow> int option" where
  "hourOf time = parseInt (takeWhile (\<lambda>c. c \<noteq> CHR '':'') time)"

text \<open>Comparisons of numbers that may be \<open>NaN\<close>: false as soon as one side is.\<close>

definition numLe :: "int option \<Rightarrow> int option \<Rightarrow> bool" where
  "numLe a b = (case a of None \<Rightarrow> False | Some x \<Rightarrow> (case b of None \<Rightarrow> False | Some y \<Rightarrow> x \<le> y))"

definition numLt :: "int option \<Rightarrow> int option \<Rightarrow> bool" where
  "numLt a b = (case a of None \<Rightarrow> False | Some x \<Rightarrow> (case b of None \<Rightarrow> False | Some y \<Rightarrow> x < y))"

text \<open>The predicate of \<open>shifts.find\<close>: the shift contains the hour.\<close>

definition shiftContains :: "int \<Rightarrow> Shift \<Rightarrow> bool" where
  "shiftContains h s =
     (let startHour = hourOf (sh_startTime s); endHour = hourOf (sh_endTime s)
      in if numLe startHour endHour then numLe startHour (Some h) \<and> numLt (Some h) endHour
         else numLe startHour (Some h) \<or> numLt (Some h) endHour)"

definition shiftContaining :: "Shift list \<Rightarrow> int \<Rightarrow> Shift option" where
  "shiftContaining ss h = find (shiftContains h) ss"

text \<open>\<open>for (let h = from; h < to; h++) hoursToUpdate.push(h)\<close>\<close>

function hoursFromTo :: "int \<Rightarrow> int \<Rightarrow> int list" where
  "hoursFromTo h e = (if h < e then h # hoursFromTo (h + 1) e else [])"
  by pat_completeness auto
termination
  by (relation "measure (\<lambda>(h, e). nat (e - h))") auto

declare hoursFromTo.simps [simp del]

text \<open>The same loop with bounds that may be \<open>NaN\<close>: then its test fails at once.\<close>

definition pushHours :: "int option \<Rightarrow> int option \<Rightarrow> int list" where
  "pushHours from to =
     (case from of None \<Rightarrow> []
      | Some s \<Rightarrow> (case to of None \<Rightarrow> [] | Some e \<Rightarrow> hoursFromTo s e))"

text \<open>Lines 314 to 354: the hours that the update touches.\<close>

definition hoursToUpdate :: "Shift list \<Rightarrow> int \<Rightarrow> bool \<Rightarrow> int list" where
  "hoursToUpdate ss h applyToShift =
     (if applyToShift then
        (case shiftContaining ss h of
           None \<Rightarrow> [h]
         | Some shift \<Rightarrow>
             (let startHour = hourOf (sh_startTime shift); endHour = hourOf (sh_endTime shift)
              in if numLe startHour endHour then pushHours startHour endHour
                 else if numLe startHour (Some h) then pushHours startHour (Some 24)
                 else if numLt (Some h) endHour then pushHours (Some 0) endHour
                 else []))
      else [h])"

text \<open>The slot that the assignment route creates for an hour without one; the operator
  and the mold are set when the request resolved them.\<close>

definition newAssignmentSlot :: "int \<Rightarrow> 'o option \<Rightarrow> 'm option \<Rightarrow> ('o, 'm) HourSlot" where
  "newAssignmentSlot targetHour validOperatorId validMoldId =
     \<lparr>hour = targetHour, unitsProduced = 0, defectiveUnits = 0, status = Some ''inactive'',
      runningMinutes = 0, stoppageMinutes = 0, operatorId = validOperatorId,
      moldId = validMoldId, stoppages = []\<rparr>"

text \<open>One iteration of the loop of lines 357 to 382, on the hourly data of the record.
  A slot found is changed in place. A slot created is pushed with the operator and the
  mold (line 374); the record takes a copy of it, and the defective units that line 380
  gives to the route's own object are not saved.\<close>

definition updateHour ::
  "int \<Rightarrow> 'o option \<Rightarrow> 'm option \<Rightarrow> int option \<Rightarrow> ('o, 'm) HourSlot list \<Rightarrow> int
   \<Rightarrow> ('o, 'm) HourSlot list" where
  "updateHour h validOperatorId validMoldId defective hs targetHour =
     (case findIndex (\<lambda>s. hour s = targetHour) hs of
        None \<Rightarrow> hs @ [newAssignmentSlot targetHour validOperatorId validMoldId]
      | Some k \<Rightarrow>
          (case defective of
             None \<Rightarrow> hs
           | Some n \<Rightarrow>
               if targetHour = h then hs[k := (hs ! k)\<lparr>defectiveUnits := n\<rparr>] else hs))"

text \<open>\<open>hourlyData.reduce((sum, h) => sum + (h.defectiveUnits || 0), 0)\<close>\<close>

definition sumDefective :: "('o, 'm) HourSlot list \<Rightarrow> int" where
  "sumDefective hs = foldl (\<lambda>sum h. sum + defectiveUnits h) 0 hs"

text \<open>Lines 356 to 389 on the record found or created.\<close>

definition assignOnRecord ::
  "int list \<Rightarrow> int \<Rightarrow> 'o option \<Rightarrow> 'm option \<Rightarrow> int option \<Rightarrow> ('o, 'm) ProductionRecord
   \<Rightarrow> ('o, 'm) ProductionRecord" where
  "assignOnRecord targets h validOperatorId validMoldId defective r =
     (let hs = foldl (updateHour h validOperatorId validMoldId defective) (hourlyData r) targets
      in r\<lparr>hourlyData := hs, r_defectiveUnits := sumDefective hs\<rparr>)"

text \<open>The operator of the request: an object id, or else a user name to look up.
  \<open>toObjectId\<close> stands for mongoose's \<open>ObjectId.isValid\<close> and \<open>new ObjectId\<close>: the
  object id of a string that is a valid one, \<open>None\<close> otherwise.\<close>

definition validOperator ::
  "(string \<Rightarrow> objectId option) \<Rightarrow> User list \<Rightarrow> string option \<Rightarrow> string + objectId option" where
  "validOperator toObjectId us opId =
     (case nonEmpty opId of
        None \<Rightarrow> Inr None
      | Some s \<Rightarrow>
          if trim s = [] then Inr None
          else (case toObjectId s of
                  Some oid \<Rightarrow> Inr (Some oid)
                | None \<Rightarrow>
                    (case find (\<lambda>u. username u = s) us of
                       Some u \<Rightarrow> Inr (Some (u_id u))
                     | None \<Rightarrow> Inl ''Invalid operator specified'')))"

definition validMold :: "(string \<Rightarrow> objectId option) \<Rightarrow> string option \<Rightarrow> string + objectId option" where
  "validMold toObjectId mId =
     (case nonEmpty mId of
        None \<Rightarrow> Inr None
      | Some s \<Rightarrow>
          if trim s = [] then Inr None
          else (case toObjectId s of
                  Some oid \<Rightarrow> Inr (Some oid)
                | None \<Rightarrow> Inl ''Invalid mold ID specified''))"

text \<open>The whole route; an exception on the way is caught and answered 500 (lines 406 to
  409), and \<open>saves\<close> tells whether \<open>save()\<close> stores the document, as in the stoppage
  route.\<close>

definition assignment_route ::
  "((objectId, objectId) ProductionRecord \<Rightarrow> bool) \<Rightarrow> (string \<Rightarrow> objectId option) \<Rightarrow> Store
   \<Rightarrow> AssignmentBody \<Rightarrow> unit response \<times> Store" where
  "assignment_route saves toObjectId store a =
     (case validOperator toObjectId (userDocs store) (a_operatorId a) of
        Inl msg \<Rightarrow> (Message 400 msg, store)
      | Inr validOperatorId \<Rightarrow>
          (case validMold toObjectId (a_moldId a) of
             Inl msg \<Rightarrow> (Message 400 msg, store)
           | Inr validMoldId \<Rightarrow>
               (let rs = productionRecords store;
                    found = findRecord (a_machineId a) (a_date a) rs;
                    productionRecord =
                      (case found of
                         Some i \<Rightarrow> rs ! i
                       | None \<Rightarrow>
                           newProductionRecord (a_machineId a) (dayStartUTC (a_date a)));
                    ss = (case config store of None \<Rightarrow> [] | Some c \<Rightarrow> shifts c);
                    targets = hoursToUpdate ss (a_hour a) (a_applyToShift a);
                    r = assignOnRecord targets (a_hour a) validOperatorId validMoldId
                          (a_defectiveUnits a) productionRecord
                in if saves r then
                     (Message 200 ''Production assignment updated successfully'',
                      store\<lparr>productionRecords :=
                        (case found of Some i \<Rightarrow> rs[i := r] | None \<Rightarrow> rs @ [r])\<rparr>)
                   else (Message 500 ''Server error'', store))))"

section \<open>GET /production-timeline/:machineId\<close>

record ('o, 'm) HourEntry =
  e_hour :: int
  e_unitsProduced :: int
  e_defectiveUnits :: int
  e_status :: string
  operator :: "'o option"
  mold :: "'m option"
  e_stoppages :: "Stoppage list"
  e_runningMinutes :: int
  e_stoppageMinutes :: int

record ('o, 'm) DayEntry =
  date :: int
  hours :: "('o, 'm) HourEntry list"

text \<open>The requesting identity that the authentication middleware supplies.\<close>

record Requester =
  role :: string
  departmentId :: "objectId option"

text \<open>Lines 63 to 68: the status determined from the activity of the hour.\<close>

definition activityStatus :: "int \<Rightarrow> int \<Rightarrow> string" where
  "activityStatus running stopped =
     (if running > 0 then (if stopped > running then ''stoppage'' else ''running'')
      else if stopped > 0 then ''stoppage''
      else ''inactive'')"

text \<open>Line 55: \<open>dayRecord?.hourlyData?.find(h => h.hour === hour)\<close>\<close>

definition findHourData :: "('o, 'm) ProductionRecord option \<Rightarrow> int \<Rightarrow> ('o, 'm) HourSlot option" where
  "findHourData dayRecord h = Option.bind dayRecord (\<lambda>r. find (\<lambda>s. hour s = h) (hourlyData r))"

text \<open>Lines 55 to 80: the entry of one hour of a day, from the record of the day when
  there is one.\<close>

definition hourEntry :: "('o, 'm) ProductionRecord option \<Rightarrow> int \<Rightarrow> ('o, 'm) HourEntry" where
  "hourEntry dayRecord h =
     (let hourData = findHourData dayRecord h;
          running = (case hourData of None \<Rightarrow> 0 | Some s \<Rightarrow> runningMinutes s);
          stopped = (case hourData of None \<Rightarrow> 0 | Some s \<Rightarrow> sumDurations (stoppages s));
          derived = activityStatus running stopped
      in \<lparr>e_hour = h,
          e_unitsProduced = (case hourData of None \<Rightarrow> 0 | Some s \<Rightarrow> unitsProduced s),
          e_defectiveUnits = (case hourData of None \<Rightarrow> 0 | Some s \<Rightarrow> defectiveUnits s),
          e_status = (case Option.bind hourData (\<lambda>s. nonEmpty (status s)) of
                        None \<Rightarrow> derived | Some st \<Rightarrow> st),
          operator = (case Option.bind hourData operatorId of
                        None \<Rightarrow> Option.bind dayRecord r_operatorId | Some x \<Rightarrow> Some x),
          mold = (case Option.bind hourData moldId of
                    None \<Rightarrow> Option.bind dayRecord r_moldId | Some x \<Rightarrow> Some x),
          e_stoppages = (case hourData of None \<Rightarrow> [] | Some s \<Rightarrow> stoppages s),
          e_runningMinutes = running,
          e_stoppageMinutes = stopped\<rparr>)"

text \<open>\<open>for (let d = new Date(startDate); d <= endDate; d.setDate(d.getDate() + 1))\<close>:
  the instants that the loop visits.\<close>

function dayLoop :: "int \<Rightarrow> int \<Rightarrow> int list" where
  "dayLoop d endDate = (if d \<le> endDate then d # dayLoop (d + 86400000) endDate else [])"
  by pat_completeness auto
termination
  by (relation "measure (\<lambda>(d, endDate). nat (endDate - d + 1))") auto

declare dayLoop.simps [simp del]

text \<open>Lines 49 to 52: the record of the day is the first record of the same calendar
  date.\<close>

definition findDayRecord ::
  "('o, 'm) ProductionRecord list \<Rightarrow> int \<Rightarrow> ('o, 'm) ProductionRecord option" where
  "findDayRecord records dayStart =
     find (\<lambda>r. r_startTime r div msPerDay = dayStart div msPerDay) records"

text \<open>Lines 38 to 83: the entry of the day of an instant.\<close>

definition dayEntry :: "('o, 'm) ProductionRecord list \<Rightarrow> int \<Rightarrow> ('o, 'm) DayEntry" where
  "dayEntry records d =
     (let dayStart = d - d mod msPerDay;
          dayRecord = findDayRecord records dayStart
      in \<lparr>date = dayStart div msPerDay, hours = map (hourEntry dayRecord) [0..23]\<rparr>)"

definition buildTimeline ::
  "int \<Rightarrow> int \<Rightarrow> ('o, 'm) ProductionRecord list \<Rightarrow> ('o, 'm) DayEntry list" where
  "buildTimeline startDate endDate records = map (dayEntry records) (dayLoop startDate endDate)"

text \<open>\<open>populate\<close>: a reference is replaced by the document it names, and is absent when
  there is none.\<close>

definition findUser :: "Store \<Rightarrow> objectId \<Rightarrow> User option" where
  "findUser store i = find (\<lambda>u. u_id u = i) (userDocs store)"

definition findMold :: "Store \<Rightarrow> objectId \<Rightarrow> Mold option" where
  "findMold store i = find (\<lambda>m. mold_id m = i) (moldDocs store)"

definition populateSlot :: "Store \<Rightarrow> (objectId, objectId) HourSlot \<Rightarrow> (User, Mold) HourSlot" where
  "populateSlot store s =
     \<lparr>hour = hour s, unitsProduced = unitsProduced s, defectiveUnits = defectiveUnits s,
      status = status s, runningMinutes = runningMinutes s,
      stoppageMinutes = stoppageMinutes s,
      operatorId = Option.bind (operatorId s) (findUser store),
      moldId = Option.bind (moldId s) (findMold store),
      stoppages = stoppages s\<rparr>"

definition populate ::
  "Store \<Rightarrow> (objectId, objectId) ProductionRecord \<Rightarrow> (User, Mold) ProductionRecord" where
  "populate store r =
     \<lparr>machineId = machineId r, r_startTime = r_startTime r,
      r_unitsProduced = r_unitsProduced r, r_defectiveUnits = r_defectiveUnits r,
      r_operatorId = Option.bind (r_operatorId r) (findUser store),
      r_moldId = Option.bind (r_moldId r) (findMold store),
      hourlyData = map (populateSlot store) (hourlyData r)\<rparr>"

text \<open>\<open>Machine.findById\<close>\<close>

definition findMachine :: "Store \<Rightarrow> objectId \<Rightarrow> Machine option" where
  "findMachine store i = find (\<lambda>m. m_id m = i) (machines store)"

text \<open>Line 25 and line 424: an operator may only look at a machine of the own department.\<close>

definition accessDenied :: "Requester \<Rightarrow> Machine \<Rightarrow> bool" where
  "accessDenied user machine =
     (role user = ''operator'' \<and> departmentId user \<noteq> Some (m_departmentId machine))"

text \<open>\<open>ProductionRecord.find\<close> of a machine between two instants.\<close>

definition recordsBetween ::
  "objectId \<Rightarrow> int \<Rightarrow> int \<Rightarrow> ('o, 'm) ProductionRecord list \<Rightarrow> ('o, 'm) ProductionRecord list" where
  "recordsBetween mid startDate endDate rs =
     filter (\<lambda>r. machineId r = mid \<and> startDate \<le> r_startTime r \<and> r_startTime r \<le> endDate) rs"

text \<open>The whole route; \<open>now\<close> is the clock.\<close>

definition timeline_route ::
  "Store \<Rightarrow> Requester \<Rightarrow> objectId \<Rightarrow> int \<Rightarrow> (User, Mold) DayEntry list response" where
  "timeline_route store user mid now =
     (let endDate = now; startDate = endDate - 7 * msPerDay
      in case findMachine store mid of
           None \<Rightarrow> Message 404 ''Machine not found''
         | Some machine \<Rightarrow>
             if accessDenied user machine then Message 403 ''Access denied to this machine''
             else Json 200
                    (buildTimeline startDate endDate
                       (map (populate store)
                          (recordsBetween mid startDate endDate (productionRecords store)))))"

section \<open>GET /machine-stats/:machineId\<close>

text \<open>The counters of lines 458 to 463.\<close>

record Totals =
  totalRunningMinutes :: int
  totalStoppageMinutes :: int
  totalStoppages :: int
  breakdownStoppages :: int
  totalBreakdownMinutes :: int
  totalExpectedUnits :: real

definition zeroTotals :: Totals where
  "zeroTotals =
     \<lparr>totalRunningMinutes = 0, totalStoppageMinutes = 0, totalStoppages = 0,
      breakdownStoppages = 0, totalBreakdownMinutes = 0, totalExpectedUnits = 0\<rparr>"

text \<open>\<open>hourData.moldId?.productionCapacityPerHour\<close> in a condition: the capacity of the
  populated mold when it is there and not zero. \<open>cap\<close> gives the capacity of the mold
  that a slot names.\<close>

definition slotCapacity :: "('m \<Rightarrow> int option) \<Rightarrow> ('o, 'm) HourSlot \<Rightarrow> int option" where
  "slotCapacity cap h =
     (case Option.bind (moldId h) cap of
        None \<Rightarrow> None
      | Some c \<Rightarrow> if c = 0 then None else Some c)"

text \<open>Lines 478 to 483.\<close>

definition countBreakdown :: "Totals \<Rightarrow> Stoppage \<Rightarrow> Totals" where
  "countBreakdown t s =
     (if reason s = ''breakdown''
      then t\<lparr>breakdownStoppages := breakdownStoppages t + 1,
             totalBreakdownMinutes := totalBreakdownMinutes t + orZero (duration s)\<rparr>
      else t)"

text \<open>Lines 467 to 483: the body of the first pass over the hourly data.\<close>

definition accumulateHour :: "('m \<Rightarrow> int option) \<Rightarrow> Totals \<Rightarrow> ('o, 'm) HourSlot \<Rightarrow> Totals" where
  "accumulateHour cap t h =
     (let t1 = t\<lparr>totalRunningMinutes := totalRunningMinutes t + runningMinutes h,
                 totalStoppageMinutes := totalStoppageMinutes t + stoppageMinutes h,
                 totalStoppages := totalStoppages t + int (length (stoppages h))\<rparr>;
          t2 = (case slotCapacity cap h of
                  None \<Rightarrow> t1
                | Some c \<Rightarrow>
                    (let capacityPerMinute = real_of_int c / 60
                     in t1\<lparr>totalExpectedUnits :=
                            totalExpectedUnits t1
                              + capacityPerMinute * real_of_int (runningMinutes h)\<rparr>))
      in foldl countBreakdown t2 (stoppages h))"

definition firstPass :: "('m \<Rightarrow> int option) \<Rightarrow> ('o, 'm) ProductionRecord list \<Rightarrow> Totals" where
  "firstPass cap records =
     foldl (\<lambda>t r. foldl (accumulateHour cap) t (hourlyData r)) zeroTotals records"

text \<open>Lines 497 to 503: the second pass adds the capacity of every hour with a mold.\<close>

definition addCapacity :: "('m \<Rightarrow> int option) \<Rightarrow> real \<Rightarrow> ('o, 'm) HourSlot \<Rightarrow> real" where
  "addCapacity cap e h =
     (case slotCapacity cap h of None \<Rightarrow> e | Some c \<Rightarrow> e + real_of_int c)"

definition secondPass :: "('m \<Rightarrow> int option) \<Rightarrow> real \<Rightarrow> ('o, 'm) ProductionRecord list \<Rightarrow> real" where
  "secondPass cap e records =
     foldl (\<lambda>e r. foldl (addCapacity cap) e (hourlyData r)) e records"

text \<open>A division of JavaScript numbers: by zero it gives \<open>NaN\<close> or an infinity, which is
  \<open>None\<close> here. The quotients, products and sums of the statistics are exact here; the
  source computes them in IEEE doubles, so that a percentage whose exact value lies within
  a rounding error of a half can be sent one lower or higher than the exact one (23 of 40
  is sent as 57 percent, where the exact 57.5 rounds to 58).\<close>

definition divide_js :: "real \<Rightarrow> real \<Rightarrow> real option" where
  "divide_js a b = (if b = 0 then None else Some (a / b))"

definition times_js :: "real option \<Rightarrow> real option \<Rightarrow> real option" where
  "times_js a b = (case a of None \<Rightarrow> None | Some x \<Rightarrow> map_option (\<lambda>y. x * y) b)"

text \<open>\<open>Math.round\<close>\<close>

definition round_js :: "real \<Rightarrow> int" where
  "round_js x = \<lfloor>x + 1 / 2\<rfloor>"

text \<open>The values that lines 449 to 514 compute, before they are rounded.\<close>

record Metrics =
  totals :: Totals
  totalUnitsProduced :: int
  totalDefectiveUnits :: int
  expectedUnits :: real
  availability :: "real option"
  quality :: "real option"
  performance :: "real option"
  oee :: "real option"
  mtbf :: "real option"
  mttr :: "real option"

definition computeStats :: "('m \<Rightarrow> int option) \<Rightarrow> ('o, 'm) ProductionRecord list \<Rightarrow> Metrics" where
  "computeStats cap records =
     (let units = foldl (\<lambda>sum r. sum + r_unitsProduced r) 0 records;
          defective = foldl (\<lambda>sum r. sum + r_defectiveUnits r) 0 records;
          t = firstPass cap records;
          totalAvailableMinutes = totalRunningMinutes t + totalStoppageMinutes t;
          av = (if totalAvailableMinutes > 0
                then divide_js (real_of_int (totalRunningMinutes t))
                       (real_of_int totalAvailableMinutes)
                else Some 0);
          qu = (if units > 0
                then divide_js (real_of_int (units - defective)) (real_of_int units)
                else Some 0);
          expected = secondPass cap (totalExpectedUnits t) records;
          pf = (if expected > 0 then divide_js (real_of_int units) expected else Some 0)
      in \<lparr>totals = t, totalUnitsProduced = units, totalDefectiveUnits = defective,
          expectedUnits = expected, availability = av, quality = qu, performance = pf,
          oee = times_js (times_js av qu) pf,
          mtbf = (if breakdownStoppages t > 0
                  then divide_js (real_of_int (totalRunningMinutes t))
                         (real_of_int (breakdownStoppages t))
                  else Some 0),
          mttr = (if breakdownStoppages t > 0
                  then divide_js (real_of_int (totalBreakdownMinutes t))
                         (real_of_int (breakdownStoppages t))
                  else Some 0)\<rparr>)"

text \<open>The answer of the route, lines 516 to 530; a ratio that is not a number would be
  sent as \<open>null\<close>.\<close>

record StatsJson =
  j_totalUnitsProduced :: int
  j_totalDefectiveUnits :: int
  j_oee :: "int option"
  j_mtbf :: "int option"
  j_mttr :: "int option"
  j_availability :: "int option"
  j_quality :: "int option"
  j_performance :: "int option"
  j_currentStatus :: string
  j_totalRunningMinutes :: int
  j_totalStoppageMinutes :: int
  j_breakdownStoppages :: int
  j_totalBreakdownMinutes :: int

definition percent :: "real option \<Rightarrow> int option" where
  "percent x = map_option (\<lambda>v. round_js (v * 100)) x"

definition statsJson :: "string \<Rightarrow> Metrics \<Rightarrow> StatsJson" where
  "statsJson machineStatus m =
     \<lparr>j_totalUnitsProduced = totalUnitsProduced m,
      j_totalDefectiveUnits = totalDefectiveUnits m,
      j_oee = percent (oee m),
      j_mtbf = map_option round_js (mtbf m),
      j_mttr = map_option round_js (mttr m),
      j_availability = percent (availability m),
      j_quality = percent (quality m),
      j_performance = percent (performance m),
      j_currentStatus = machineStatus,
      j_totalRunningMinutes = totalRunningMinutes (totals m),
      j_totalStoppageMinutes = totalStoppageMinutes (totals m),
      j_breakdownStoppages = breakdownStoppages (totals m),
      j_totalBreakdownMinutes = totalBreakdownMinutes (totals m)\<rparr>"

text \<open>Lines 428 to 437: the start of the period; an unknown period leaves it at the end.\<close>

definition periodStart :: "string option \<Rightarrow> int \<Rightarrow> int" where
  "periodStart period endDate =
     (let p = (case period of None \<Rightarrow> ''24h'' | Some x \<Rightarrow> x)
      in if p = ''24h'' then endDate - 24 * 3600000
         else if p = ''7d'' then endDate - 7 * msPerDay
         else if p = ''30d'' then endDate - 30 * msPerDay
         else endDate)"

text \<open>The capacity of the mold that populating \<open>hourlyData.moldId\<close> puts into a slot.\<close>

definition moldCapacity :: "Store \<Rightarrow> objectId \<Rightarrow> int option" where
  "moldCapacity store i = Option.bind (findMold store i) productionCapacityPerHour"

text \<open>The whole route.\<close>

definition stats_route ::
  "Store \<Rightarrow> Requester \<Rightarrow> objectId \<Rightarrow> string option \<Rightarrow> int \<Rightarrow> StatsJson response" where
  "stats_route store user mid period now =
     (case findMachine store mid of
        None \<Rightarrow> Message 404 ''Machine not found''
      | Some machine \<Rightarrow>
          if accessDenied user machine then Message 403 ''Access denied to this machine''
          else (let endDate = now; startDate = periodStart period endDate
                in Json 200
                     (statsJson (m_status machine)
                        (computeStats (moldCapacity store)
                           (recordsBetween mid startDate endDate (productionRecords store))))))"

section \<open>Notions for the statements and the proofs\<close>

text \<open>What an update leaves of a slot: all its fields but \<open>defectiveUnits\<close>, and that
  one too unless the slot is of the requested hour and the request carries a value.\<close>

definition keeps :: "int \<Rightarrow> int option \<Rightarrow> ('o, 'm) HourSlot \<Rightarrow> ('o, 'm) HourSlot \<Rightarrow> bool" where
  "keeps h defective old new =
     (new = old\<lparr>defectiveUnits := defectiveUnits new\<rparr> \<and>
      (defectiveUnits new = defectiveUnits old \<or>
       hour old = h \<and> defective = Some (defectiveUnits new)))"


text \<open>All the hour slots of a record set, in the order in which the passes of the
  statistics visit them.\<close>

definition slotsOf :: "('o, 'm) ProductionRecord list \<Rightarrow> ('o, 'm) HourSlot list" where
  "slotsOf records = concat (map hourlyData records)"

definition isBreakdown :: "Stoppage \<Rightarrow> bool" where
  "isBreakdown s = (reason s = ''breakdown'')"

text \<open>What the first pass adds to the expected units for a slot, and what the second
  pass adds for it.\<close>

definition timeShare :: "('m \<Rightarrow> int option) \<Rightarrow> ('o, 'm) HourSlot \<Rightarrow> real" where
  "timeShare cap h =
     (case slotCapacity cap h of None \<Rightarrow> 0
      | Some c \<Rightarrow> real_of_int c / 60 * real_of_int (runningMinutes h))"

definition flatShare :: "('m \<Rightarrow> int option) \<Rightarrow> ('o, 'm) HourSlot \<Rightarrow> real" where
  "flatShare cap h = (case slotCapacity cap h of None \<Rightarrow> 0 | Some c \<Rightarrow> real_of_int c)"

section \<open>Concrete inputs\<close>

definition emptyStore :: Store where
  "emptyStore =
     \<lparr>machines = [], userDocs = [], moldDocs = [], config = None, productionRecords = []\<rparr>"

text \<open>A breakdown of machine M1 at hour 8 of day 0, lasting 15 minutes, with a given SAP
  notification number.\<close>

definition breakdownBody :: "string option \<Rightarrow> StoppageBody" where
  "breakdownBody sap =
     \<lparr>b_machineId = ''M1'', b_hour = 8, b_date = 0, b_reason = ''breakdown'',
      b_description = None, b_duration = Some 15, b_pendingStoppageId = None,
      b_sapNotificationNumber = sap\<rparr>"

text \<open>A pending stoppage that began at 08:00 of day 0, with the placeholder duration 0.\<close>

definition pendingStoppage :: "objectId \<Rightarrow> Stoppage" where
  "pendingStoppage i =
     \<lparr>sid = Some i, reason = ''unclassified'', description = None,
      startTime = 28800000, endTime = None, duration = Some 0,
      isPending = True, isClassified = False, sapNotificationNumber = None\<rparr>"

definition pendingSlot :: "Stoppage list \<Rightarrow> (objectId, objectId) HourSlot" where
  "pendingSlot ss =
     \<lparr>hour = 8, unitsProduced = 0, defectiveUnits = 0, status = Some ''stoppage'',
      runningMinutes = 0, stoppageMinutes = 0, operatorId = None, moldId = None,
      stoppages = ss\<rparr>"

text \<open>The store holding the record of machine M1 for day 0 with that one pending
  stoppage in hour 8.\<close>

definition pendingStore :: Store where
  "pendingStore =
     \<lparr>machines = [], userDocs = [], moldDocs = [], config = None,
      productionRecords =
        [\<lparr>machineId = ''M1'', r_startTime = 0, r_unitsProduced = 0, r_defectiveUnits = 0,
          r_operatorId = None, r_moldId = None,
          hourlyData = [pendingSlot [pendingStoppage ''p1'']]\<rparr>]\<rparr>"

text \<open>The submission that classifies the pending stoppage named by an id.\<close>

definition finalizeBody :: "string \<Rightarrow> StoppageBody" where
  "finalizeBody pid =
     \<lparr>b_machineId = ''M1'', b_hour = 8, b_date = 0, b_reason = ''other'',
      b_description = None, b_duration = None, b_pendingStoppageId = Some pid,
      b_sapNotificationNumber = None\<rparr>"

text \<open>Two pending stoppages in one slot, the one named p0 before the one named p1.\<close>

definition twoPending :: "Stoppage list" where
  "twoPending = [pendingStoppage ''p0'', pendingStoppage ''p1'']"

text \<open>The night shift of the specification's scenario.\<close>

definition nightShift :: Shift where
  "nightShift = \<lparr>sh_startTime = ''22:00'', sh_endTime = ''06:00''\<rparr>"

text \<open>A record whose only slot is hour 23, worked by operator A on mold A with one
  defective unit.\<close>

definition workedRecord :: "(objectId, objectId) ProductionRecord" where
  "workedRecord =
     \<lparr>machineId = ''M1'', r_startTime = 0, r_unitsProduced = 40, r_defectiveUnits = 1,
      r_operatorId = None, r_moldId = None,
      hourlyData =
        [\<lparr>hour = 23, unitsProduced = 40, defectiveUnits = 1, status = Some ''running'',
          runningMinutes = 60, stoppageMinutes = 0, operatorId = Some ''opA'',
          moldId = Some ''moldA'', stoppages = []\<rparr>]\<rparr>"

text \<open>A classified stoppage of hour 8 of day 0, of the reason other, with its duration
  in minutes.\<close>

definition otherStoppage :: "int \<Rightarrow> Stoppage" where
  "otherStoppage minutes =
     \<lparr>sid = None, reason = ''other'', description = None, startTime = 28800000,
      endTime = Some (28800000 + minutes * 60000), duration = Some minutes,
      isPending = False, isClassified = True, sapNotificationNumber = None\<rparr>"

text \<open>A classified stoppage with an id.\<close>

definition classifiedStoppage :: "objectId \<Rightarrow> Stoppage" where
  "classifiedStoppage i = (otherStoppage 10)\<lparr>sid := Some i\<rparr>"

text \<open>The store holding the record of machine M1 for day 0 with the two pending
  stoppages in hour 8.\<close>

definition twoPendingStore :: Store where
  "twoPendingStore =
     \<lparr>machines = [], userDocs = [], moldDocs = [], config = None,
      productionRecords =
        [\<lparr>machineId = ''M1'', r_startTime = 0, r_unitsProduced = 0, r_defectiveUnits = 0,
          r_operatorId = None, r_moldId = None,
          hourlyData = [pendingSlot twoPending]\<rparr>]\<rparr>"

text \<open>A slot of hour 8 without a status of its own, with its running minutes and one
  stoppage; its cached \<open>stoppageMinutes\<close> is 0. Operator 8 is assigned to it, no mold.\<close>

definition sensorSlot :: "int \<Rightarrow> int \<Rightarrow> (objectId, objectId) HourSlot" where
  "sensorSlot running minutes =
     \<lparr>hour = 8, unitsProduced = 0, defectiveUnits = 0, status = None,
      runningMinutes = running, stoppageMinutes = 0, operatorId = Some ''op8'', moldId = None,
      stoppages = [otherStoppage minutes]\<rparr>"

text \<open>The record of machine M1 for day 0 with that slot; operator R and mold R are
  assigned to the record.\<close>

definition sensorRecord :: "int \<Rightarrow> int \<Rightarrow> (objectId, objectId) ProductionRecord" where
  "sensorRecord running minutes =
     \<lparr>machineId = ''M1'', r_startTime = 0, r_unitsProduced = 0, r_defectiveUnits = 0,
      r_operatorId = Some ''opR'', r_moldId = Some ''moldR'',
      hourlyData = [sensorSlot running minutes]\<rparr>"

text \<open>A store that knows machine M1 and holds no record.\<close>

definition machineStore :: Store where
  "machineStore =
     \<lparr>machines = [\<lparr>m_id = ''M1'', m_name = ''Press 1'', m_departmentId = ''D1'',
                    m_status = ''running''\<rparr>],
      userDocs = [], moldDocs = [], config = None, productionRecords = []\<rparr>"

definition admin :: Requester where
  "admin = \<lparr>role = ''admin'', departmentId = None\<rparr>"

text \<open>An assignment of machine G7, which no store here knows, for hour 8 of day 0.\<close>

definition ghostAssignment :: AssignmentBody where
  "ghostAssignment =
     \<lparr>a_machineId = ''G7'', a_hour = 8, a_date = 0, a_operatorId = None, a_moldId = None,
      a_defectiveUnits = Some 2, a_applyToShift = False\<rparr>"

text \<open>A stoppage of machine G7 for hour 8 of day 0.\<close>

definition ghostStoppage :: StoppageBody where
  "ghostStoppage =
     \<lparr>b_machineId = ''G7'', b_hour = 8, b_date = 0, b_reason = ''planned'',
      b_description = None, b_duration = Some 20, b_pendingStoppageId = None,
      b_sapNotificationNumber = None\<rparr>"

text \<open>The specification's scenario: one record of machine M1 with 1000 units and 50
  defective ones, eight hours of 60 running and 15 stoppage minutes each, all on the mold
  of capacity 120 an hour.\<close>

definition scenarioSlot :: "int \<Rightarrow> (objectId, objectId) HourSlot" where
  "scenarioSlot h =
     \<lparr>hour = h, unitsProduced = 125, defectiveUnits = 0, status = Some ''running'',
      runningMinutes = 60, stoppageMinutes = 15, operatorId = None, moldId = Some ''mold120'',
      stoppages = []\<rparr>"

definition scenarioRecord :: "(objectId, objectId) ProductionRecord" where
  "scenarioRecord =
     \<lparr>machineId = ''M1'', r_startTime = 0, r_unitsProduced = 1000, r_defectiveUnits = 50,
      r_operatorId = None, r_moldId = None,
      hourlyData = map scenarioSlot [8, 9, 10, 11, 12, 13, 14, 15]\<rparr>"

definition scenarioStore :: Store where
  "scenarioStore =
     \<lparr>machines = [\<lparr>m_id = ''M1'', m_name = ''Press 1'', m_departmentId = ''D1'',
                    m_status = ''running''\<rparr>],
      userDocs = [],
      moldDocs = [\<lparr>mold_id = ''mold120'', productionCapacityPerHour = Some 120\<rparr>],
      config = None, productionRecords = [scenarioRecord]\<rparr>"

section \<open>Facts about the helpers\<close>

lemma findIndex_Some_iff:
  "findIndex P xs = Some i \<longleftrightarrow> i < length xs \<and> P (xs ! i) \<and> (\<forall>j<i. \<not> P (xs ! j))"
proof (induction xs arbitrary: i)
  case Nil
  then show ?case by simp
next
  case (Cons x xs)
  show ?case
  proof (cases "P x")
    case True
    then show ?thesis by (cases i) auto
  next
    case False
    show ?thesis
    proof (cases i)
      case 0
      with False show ?thesis by simp
    next
      case (Suc k)
      have "(\<forall>j<Suc k. \<not> P ((x # xs) ! j)) \<longleftrightarrow> (\<forall>j<k. \<not> P (xs ! j))"
        using False by (auto simp: less_Suc_eq_0_disj)
      with False Suc Cons.IH [of k] show ?thesis by auto
    qed
  qed
qed

lemma foldl_add_sum_list: "foldl (\<lambda>sum x. sum + f x) (a::int) xs = a + sum_list (map f xs)"
  by (induction xs arbitrary: a) auto


section \<open>The stoppage route\<close>

text \<open>Without a pending reference the route appends the stoppage and recomputes the
  minutes of the slot from its stoppages (line 208).\<close>

lemma stoppageOnSlot_append_minutes:
  "nonEmpty (b_pendingStoppageId b) = None \<Longrightarrow> stoppageOnSlot now b h = Some h' \<Longrightarrow>
   stoppageMinutes h' = sumDurations (stoppages h')"
  by (auto simp: stoppageOnSlot_def Let_def)

text \<open>With a pending reference, whether a stoppage is finalized or a new one is appended
  in its place, the minutes of the slot are left as they were.\<close>

lemma stoppageOnSlot_pending_minutes_unchanged:
  "nonEmpty (b_pendingStoppageId b) = Some pid \<Longrightarrow> stoppageOnSlot now b h = Some h' \<Longrightarrow>
   stoppageMinutes h' = stoppageMinutes h"
  by (auto simp: stoppageOnSlot_def split: option.splits)

text \<open>Every slot that the route leaves in a record has the status stoppage.\<close>

lemma stoppageOnSlot_status:
  "stoppageOnSlot now b h = Some h' \<Longrightarrow> status h' = Some ''stoppage''"
  by (auto simp: stoppageOnSlot_def Let_def)

text \<open>
  Claim C1 says that after every successful stoppage submission, also one that finalizes
  a pending stoppage or appends a replacement for a missing one, the \<open>stoppageMinutes\<close>
  of the slot is the sum of the durations of its stoppages. The code does not do so: the
  recomputation of line 208 stands inside the branch without a pending reference only.
  Finalizing the pending stoppage of \<open>pendingStore\<close> ten minutes after its start is
  answered 201 and gives the stoppage the duration 10, while the \<open>stoppageMinutes\<close> of
  the slot stays 0.
\<close>

theorem stoppage_route_finalize_leaves_minutes_stale:
  "code (fst (stoppage_route (\<lambda>r. True) pendingStore 29400000 (finalizeBody ''p1''))) = 201 \<and>
   map (\<lambda>r. map (\<lambda>h. (hour h, stoppageMinutes h, sumDurations (stoppages h))) (hourlyData r))
     (productionRecords
        (snd (stoppage_route (\<lambda>r. True) pendingStore 29400000 (finalizeBody ''p1''))))
   = [[(8, 0, 10)]]"
  by (simp add: stoppage_route_def pendingStore_def finalizeBody_def pendingStoppage_def
      pendingSlot_def findRecord_def dayStartUTC_def msPerDay_def stoppageOnRecord_def
      stoppageOnSlot_def nonEmpty_def stoppageIndex_def pendingMatch_def finalizeStoppage_def
      sumDurations_def orZero_def)

text \<open>
  Claim C3, as amended: a breakdown submission whose SAP notification number is missing,
  blank after trimming, or has a character that is not a digit after trimming, is
  answered 400 and the store is left as it was.
\<close>

theorem stoppage_route_rejects_bad_sap:
  assumes "b_reason b = ''breakdown''"
    and "b_sapNotificationNumber b = None \<or>
         (\<exists>s. b_sapNotificationNumber b = Some s \<and>
              (trim s = [] \<or> \<not> list_all isDigit (trim s)))"
  shows "\<exists>msg. stoppage_route saves store now b = (Message 400 msg, store)"
proof (cases "sapMissing (b_sapNotificationNumber b)")
  case True
  with assms(1) show ?thesis by (simp add: stoppage_route_def)
next
  case False
  then obtain s where s: "b_sapNotificationNumber b = Some s" "s \<noteq> []" "trim s \<noteq> []"
    by (auto simp: sapMissing_def nonEmpty_def split: option.splits if_splits)
  with assms(2) have "\<not> list_all isDigit (trim s)" by auto
  with s have "sapMalformed (b_sapNotificationNumber b)"
    by (simp add: sapMalformed_def nonEmpty_def onlyDigits_def)
  with assms(1) False show ?thesis by (simp add: stoppage_route_def)
qed

text \<open>The two numbers of the specification's scenario, the empty one and \<open>ABC123\<close>.\<close>

theorem stoppage_route_rejects_bad_sap_witness:
  "b_reason (breakdownBody (Some ''ABC123'')) = ''breakdown'' \<and>
   (\<exists>msg. stoppage_route (\<lambda>r. True) emptyStore 0 (breakdownBody (Some ''ABC123''))
            = (Message 400 msg, emptyStore)) \<and>
   (\<exists>msg. stoppage_route (\<lambda>r. True) emptyStore 0 (breakdownBody (Some ''''))
            = (Message 400 msg, emptyStore))"
  using stoppage_route_rejects_bad_sap
      [of "breakdownBody (Some ''ABC123'')" "\<lambda>r. True" emptyStore 0]
    stoppage_route_rejects_bad_sap [of "breakdownBody (Some '''')" "\<lambda>r. True" emptyStore 0]
  by (simp add: breakdownBody_def trim_def isWhiteSpace_def isDigit_def)

text \<open>
  Claim C3 as stated fails: the number \<open>123\<close> followed by a space has a character that is
  not a digit, yet the submission is answered 201 and a record is written, since the
  route tests the trimmed number.
\<close>

theorem stoppage_route_accepts_padded_sap:
  "\<not> list_all isDigit ''123 '' \<and>
   b_reason (breakdownBody (Some ''123 '')) = ''breakdown'' \<and>
   b_sapNotificationNumber (breakdownBody (Some ''123 '')) = Some ''123 '' \<and>
   code (fst (stoppage_route (\<lambda>r. True) emptyStore 0 (breakdownBody (Some ''123 '')))) = 201 \<and>
   length (productionRecords
             (snd (stoppage_route (\<lambda>r. True) emptyStore 0 (breakdownBody (Some ''123 ''))))) = 1 \<and>
   productionRecords emptyStore = []"
  by (simp add: stoppage_route_def breakdownBody_def emptyStore_def sapMissing_def
      sapMalformed_def nonEmpty_def trim_def isWhiteSpace_def onlyDigits_def isDigit_def
      findRecord_def stoppageOnRecord_def newProductionRecord_def)

text \<open>A rejected save is answered 500 and leaves the store as it was: when the store
  refuses the document, and when a stoppage without a duration, whose end is an invalid
  date, is appended to a slot of the record.\<close>

lemma stoppage_route_refused_save:
  "code (fst (stoppage_route (\<lambda>r. False) store now b)) \<in> {400, 500} \<and>
   snd (stoppage_route (\<lambda>r. False) store now b) = store"
  by (simp add: stoppage_route_def Let_def split: option.splits)

lemma stoppage_route_append_without_duration:
  "stoppage_route saves pendingStore 29400000 ((finalizeBody ''p1'')\<lparr>b_pendingStoppageId := None\<rparr>)
   = (Message 500 ''Server error'', pendingStore)"
  by (simp add: stoppage_route_def pendingStore_def finalizeBody_def pendingSlot_def
      findRecord_def dayStartUTC_def msPerDay_def stoppageOnRecord_def stoppageOnSlot_def
      newStoppage_def hourStart_def nonEmpty_def)

text \<open>A stoppage submitted for an hour without a slot: the slot saved is the copy taken
  when the new slot was pushed (line 137), so that the stoppage which the route then adds
  to its own object, and its minutes, are not in the store.\<close>

lemma stoppage_route_new_slot_saved_without_stoppage:
  "map (\<lambda>r. map (\<lambda>h. (hour h, status h, stoppages h, stoppageMinutes h)) (hourlyData r))
     (productionRecords
        (snd (stoppage_route (\<lambda>r. True) emptyStore 0 (breakdownBody (Some ''123'')))))
   = [[(8, Some ''stoppage'', [], 0)]]"
  by (simp add: stoppage_route_def breakdownBody_def emptyStore_def sapMissing_def
      sapMalformed_def nonEmpty_def onlyDigits_def trim_def isWhiteSpace_def isDigit_def
      findRecord_def stoppageOnRecord_def newStoppageSlot_def newProductionRecord_def
      Let_def)

lemma finalizeStoppage_fields:
  "endTime (finalizeStoppage now b s) = Some now"
  "duration (finalizeStoppage now b s) = Some ((now - startTime s) div 60000)"
  "isPending (finalizeStoppage now b s) = False"
  "isClassified (finalizeStoppage now b s) = True"
  "startTime (finalizeStoppage now b s) = startTime s"
  "sid (finalizeStoppage now b s) = sid s"
  "reason (finalizeStoppage now b s) = b_reason b"
  "description (finalizeStoppage now b s) = b_description b"
  by (simp_all add: finalizeStoppage_def Let_def)

lemma stoppageOnSlot_finalize:
  assumes "nonEmpty (b_pendingStoppageId b) = Some pid"
    and "stoppageIndex pid (stoppages h) = Some i"
  shows "stoppageOnSlot now b h
         = Some (h\<lparr>stoppages := (stoppages h)[i := finalizeStoppage now b (stoppages h ! i)],
                    status := Some ''stoppage''\<rparr>)"
  using assms by (simp add: stoppageOnSlot_def)

text \<open>What the pending branch does with a slot in which a stoppage is selected: the
  stoppage selected is the first one whose id is the reference or whose reason is
  unclassified, whichever comes first. It is finalized in place: the other stoppages stay
  as they are, and the selected one keeps its start and its id, ends now, lasts the whole
  minutes elapsed since its start, takes the reason and the description of the request,
  is no longer pending and is classified.\<close>

lemma stoppageOnSlot_finalizes_first_match:
  assumes "nonEmpty (b_pendingStoppageId b) = Some pid"
    and "stoppageIndex pid (stoppages h) = Some i"
  shows "\<exists>h'. stoppageOnSlot now b h = Some h' \<and>
         i < length (stoppages h) \<and>
         pendingMatch pid (stoppages h ! i) \<and>
         (\<forall>j<i. \<not> pendingMatch pid (stoppages h ! j)) \<and>
         length (stoppages h') = length (stoppages h) \<and>
         (\<forall>j<length (stoppages h). j \<noteq> i \<longrightarrow> stoppages h' ! j = stoppages h ! j) \<and>
         endTime (stoppages h' ! i) = Some now \<and>
         duration (stoppages h' ! i) = Some ((now - startTime (stoppages h ! i)) div 60000) \<and>
         \<not> isPending (stoppages h' ! i) \<and>
         isClassified (stoppages h' ! i) \<and>
         startTime (stoppages h' ! i) = startTime (stoppages h ! i) \<and>
         sid (stoppages h' ! i) = sid (stoppages h ! i) \<and>
         reason (stoppages h' ! i) = b_reason b \<and>
         description (stoppages h' ! i) = b_description b"
proof -
  from assms(2) have i: "i < length (stoppages h)" "pendingMatch pid (stoppages h ! i)"
    "\<forall>j<i. \<not> pendingMatch pid (stoppages h ! j)"
    by (simp_all add: stoppageIndex_def findIndex_Some_iff)
  note upd = stoppageOnSlot_finalize [OF assms, of now]
  from i show ?thesis by (simp add: upd finalizeStoppage_fields)
qed

text \<open>
  Claim C4 says that with a pending reference the stoppage finalized is the one of the
  slot whose id is the reference, and the first unclassified one only if no id matches;
  the stoppage selected is finalized in place, ends now, lasts the whole minutes elapsed
  since its start, is no longer pending and is classified. The code compares the id
  (line 143), and a reference is found by its id among stoppages that are not
  unclassified: of two classified stoppages p0 and p1 the reference p1 selects the second.
  But the comparison and the test of the reason stand in one pass of \<open>findIndex\<close>: in the
  slot of the two pending stoppages p0 and p1, the submission that names p1, ten minutes
  after their start, is answered 201, and it is p0 that is finalized with the duration 10,
  while p1, the stoppage named, stays pending.
\<close>

theorem stoppage_route_finalizes_earlier_unclassified:
  "stoppageIndex ''p1'' [classifiedStoppage ''p0'', classifiedStoppage ''p1''] = Some 1 \<and>
   map sid twoPending = [Some ''p0'', Some ''p1''] \<and>
   stoppageIndex ''p1'' twoPending = Some 0 \<and>
   code (fst (stoppage_route (\<lambda>r. True) twoPendingStore 29400000 (finalizeBody ''p1''))) = 201 \<and>
   map (\<lambda>r. map (\<lambda>h. map (\<lambda>s. (sid s, isPending s, isClassified s, endTime s, duration s))
                     (stoppages h)) (hourlyData r))
     (productionRecords
        (snd (stoppage_route (\<lambda>r. True) twoPendingStore 29400000 (finalizeBody ''p1''))))
   = [[[(Some ''p0'', False, True, Some 29400000, Some 10),
        (Some ''p1'', True, False, None, Some 0)]]]"
  by (simp add: stoppage_route_def twoPendingStore_def twoPending_def finalizeBody_def
      pendingStoppage_def classifiedStoppage_def otherStoppage_def pendingSlot_def
      findRecord_def dayStartUTC_def msPerDay_def stoppageOnRecord_def stoppageOnSlot_def
      nonEmpty_def stoppageIndex_def pendingMatch_def finalizeStoppage_def)

section \<open>The production assignment route\<close>

lemma hoursFromTo_upto: "hoursFromTo a b = [a..b - 1]"
proof (induction a b rule: hoursFromTo.induct)
  case (1 h e)
  show ?case
  proof (cases "h < e")
    case True
    with 1 show ?thesis by (subst hoursFromTo.simps, subst upto.simps) simp
  next
    case False
    then show ?thesis by (subst hoursFromTo.simps) simp
  qed
qed

lemma hourOf_examples: "hourOf ''22:00'' = Some 22" "hourOf ''06:00'' = Some 6"
  by (simp_all add: hourOf_def parseInt_def digitOf_def digitsValue_def isWhiteSpace_def Let_def)

text \<open>
  Claim C6: for a shift that crosses midnight (its start hour above its end hour) and
  contains the requested hour, the hours updated are those from the start hour to 23 when
  the requested hour is at or after the start hour, and those from 0 to below the end
  hour when it is below the end hour; exactly one of the two holds. Without a shift
  containing the hour, or without \<open>applyToShift\<close>, only the requested hour is updated.
  For the shift from 22:00 to 06:00 and the hour 23 the hours are 22 and 23.
\<close>

theorem hoursToUpdate_midnight_crossing:
  "(shiftContaining ss h = Some shift \<and> hourOf (sh_startTime shift) = Some s \<and>
    hourOf (sh_endTime shift) = Some e \<and> e < s \<longrightarrow>
      (s \<le> h \<longrightarrow> hoursToUpdate ss h True = [s..23]) \<and>
      (h < e \<longrightarrow> hoursToUpdate ss h True = [0..e - 1]) \<and>
      (s \<le> h \<or> h < e) \<and> \<not> (s \<le> h \<and> h < e)) \<and>
   (shiftContaining ss h = None \<longrightarrow> hoursToUpdate ss h applyToShift = [h]) \<and>
   hoursToUpdate ss h False = [h] \<and>
   hoursToUpdate [nightShift] 23 True = [22, 23]"
proof -
  have a: "hoursToUpdate ss h True = [s..23]"
    if "shiftContaining ss h = Some shift" "hourOf (sh_startTime shift) = Some s"
      "hourOf (sh_endTime shift) = Some e" "e < s" "s \<le> h"
    using that by (simp add: hoursToUpdate_def numLe_def pushHours_def hoursFromTo_upto)
  have b: "hoursToUpdate ss h True = [0..e - 1]"
    if "shiftContaining ss h = Some shift" "hourOf (sh_startTime shift) = Some s"
      "hourOf (sh_endTime shift) = Some e" "e < s" "h < e"
    using that
    by (simp add: hoursToUpdate_def numLe_def numLt_def pushHours_def hoursFromTo_upto)
  have c: "s \<le> h \<or> h < e"
    if "shiftContaining ss h = Some shift" "hourOf (sh_startTime shift) = Some s"
      "hourOf (sh_endTime shift) = Some e" "e < s"
  proof -
    from that(1) have "shiftContains h shift"
      by (auto simp: shiftContaining_def find_Some_iff)
    with that(2-4) show ?thesis by (simp add: shiftContains_def numLe_def numLt_def)
  qed
  have d: "hoursToUpdate ss h applyToShift = [h]" if "shiftContaining ss h = None"
    using that by (simp add: hoursToUpdate_def)
  have e: "hoursToUpdate ss h False = [h]" by (simp add: hoursToUpdate_def)
  have f: "hoursToUpdate [nightShift] 23 True = [22, 23]"
    by (simp add: hoursToUpdate_def shiftContaining_def shiftContains_def nightShift_def
        hourOf_examples numLe_def numLt_def pushHours_def hoursFromTo_upto upto.simps)
  from a b c d e f show ?thesis by auto
qed

text \<open>The night shift at hour 3 (after midnight), at hour 23 (before midnight), and at
  hour 12, which no shift contains.\<close>

theorem hoursToUpdate_midnight_crossing_witness:
  "shiftContaining [nightShift] 3 = Some nightShift \<and>
   hoursToUpdate [nightShift] 3 True = [0, 1, 2, 3, 4, 5] \<and>
   shiftContaining [nightShift] 23 = Some nightShift \<and>
   hoursToUpdate [nightShift] 23 True = [22, 23] \<and>
   shiftContaining [nightShift] 12 = None \<and>
   hoursToUpdate [nightShift] 12 True = [12]"
  using hoursToUpdate_midnight_crossing [of "[nightShift]" 3 nightShift 22 6 True]
    hoursToUpdate_midnight_crossing [of "[nightShift]" 12 nightShift 22 6 True]
  by (simp add: shiftContaining_def shiftContains_def nightShift_def hourOf_examples
      numLe_def numLt_def upto.simps)

lemma sumDefective_sum_list: "sumDefective hs = sum_list (map defectiveUnits hs)"
  by (simp add: sumDefective_def foldl_add_sum_list)

lemma keeps_trans: "keeps h du a b \<Longrightarrow> keeps h du b c \<Longrightarrow> keeps h du a c"
  by (auto simp: keeps_def)

lemma updateHour_length:
  "length (updateHour h vo vm du hs t) = length hs \<or>
   length (updateHour h vo vm du hs t) = Suc (length hs)"
  by (auto simp: updateHour_def Let_def split: option.splits)

lemma updateHour_old:
  assumes "i < length hs"
  shows "keeps h du (hs ! i) (updateHour h vo vm du hs t ! i)"
proof (cases "findIndex (\<lambda>s. hour s = t) hs")
  case None
  with assms show ?thesis
    by (auto simp: updateHour_def keeps_def Let_def nth_append nth_list_update
        split: option.splits)
next
  case (Some k)
  then have "k < length hs" "hour (hs ! k) = t" by (simp_all add: findIndex_Some_iff)
  with Some assms show ?thesis
    by (auto simp: updateHour_def keeps_def Let_def nth_list_update split: option.splits)
qed

lemma updateHour_new:
  assumes "length hs \<le> i" "i < length (updateHour h vo vm du hs t)"
  shows "i = length hs \<and>
         keeps h du (newAssignmentSlot t vo vm) (updateHour h vo vm du hs t ! i)"
proof (cases "findIndex (\<lambda>s. hour s = t) hs")
  case None
  with assms show ?thesis
    by (auto simp: updateHour_def keeps_def Let_def nth_append nth_list_update
        newAssignmentSlot_def split: option.splits if_splits)
next
  case (Some k)
  with assms show ?thesis
    by (auto simp: updateHour_def Let_def split: option.splits if_splits)
qed

text \<open>The loop over the hours: the slots that were there stay at their index and are
  kept, and every slot behind them is a slot created for one of the hours.\<close>

lemma foldl_updateHour:
  "length hs \<le> length (foldl (updateHour h vo vm du) hs ts) \<and>
   (\<forall>i<length hs. keeps h du (hs ! i) (foldl (updateHour h vo vm du) hs ts ! i)) \<and>
   (\<forall>i. length hs \<le> i \<and> i < length (foldl (updateHour h vo vm du) hs ts) \<longrightarrow>
        (\<exists>t\<in>set ts. keeps h du (newAssignmentSlot t vo vm)
                       (foldl (updateHour h vo vm du) hs ts ! i)))"
proof (induction ts rule: rev_induct)
  case Nil
  show ?case by (simp add: keeps_def)
next
  case (snoc t ts)
  define mid where "mid = foldl (updateHour h vo vm du) hs ts"
  define new where "new = updateHour h vo vm du mid t"
  have new: "foldl (updateHour h vo vm du) hs (ts @ [t]) = new"
    by (simp add: new_def mid_def)
  from snoc have ih1: "length hs \<le> length mid"
    and ih2: "\<And>i. i < length hs \<Longrightarrow> keeps h du (hs ! i) (mid ! i)"
    and ih3: "\<And>i. length hs \<le> i \<Longrightarrow> i < length mid \<Longrightarrow>
                \<exists>t\<in>set ts. keeps h du (newAssignmentSlot t vo vm) (mid ! i)"
    by (auto simp: mid_def)
  have len: "length mid \<le> length new"
    using updateHour_length [of h vo vm du mid t] by (auto simp: new_def)
  have a: "length hs \<le> length new" using ih1 len by simp
  have b: "keeps h du (hs ! i) (new ! i)" if "i < length hs" for i
  proof -
    from that ih1 have "i < length mid" by simp
    then have "keeps h du (mid ! i) (new ! i)" unfolding new_def by (rule updateHour_old)
    with ih2 [OF that] show ?thesis by (rule keeps_trans)
  qed
  have c: "\<exists>u\<in>set (ts @ [t]). keeps h du (newAssignmentSlot u vo vm) (new ! i)"
    if "length hs \<le> i" "i < length new" for i
  proof (cases "i < length mid")
    case True
    then have k: "keeps h du (mid ! i) (new ! i)" unfolding new_def by (rule updateHour_old)
    from ih3 [OF that(1) True] obtain u where "u \<in> set ts"
      "keeps h du (newAssignmentSlot u vo vm) (mid ! i)" by blast
    with k show ?thesis by (auto intro: keeps_trans)
  next
    case False
    then have "length mid \<le> i" by simp
    from updateHour_new [OF this, of h vo vm du t] that(2)
    show ?thesis by (auto simp: new_def)
  qed
  from a b c show ?case unfolding new by blast
qed

text \<open>The route applies the loop to the record of the machine and the date, found or
  created, with the operator and the mold that the request resolved to, and saves the
  result.\<close>

lemma assignment_route_applies_assignOnRecord:
  assumes "validOperator toId (userDocs store) (a_operatorId a) = Inr vo"
    and "validMold toId (a_moldId a) = Inr vm"
  shows "assignment_route saves toId store a =
     (let rs = productionRecords store;
          found = findRecord (a_machineId a) (a_date a) rs;
          ts = hoursToUpdate (case config store of None \<Rightarrow> [] | Some c \<Rightarrow> shifts c)
                 (a_hour a) (a_applyToShift a);
          r = assignOnRecord ts (a_hour a) vo vm (a_defectiveUnits a)
                (case found of
                   Some i \<Rightarrow> rs ! i
                 | None \<Rightarrow> newProductionRecord (a_machineId a) (dayStartUTC (a_date a)))
      in if saves r then
           (Message 200 ''Production assignment updated successfully'',
            store\<lparr>productionRecords :=
              (case found of Some i \<Rightarrow> rs[i := r] | None \<Rightarrow> rs @ [r])\<rparr>)
         else (Message 500 ''Server error'', store))"
  using assms by (simp add: assignment_route_def Let_def)

text \<open>
  Claim C8: a production assignment update, for the hours \<open>ts\<close> it touches and the
  requested hour \<open>h\<close>, leaves every slot that was there at its index with all its fields,
  the operator and the mold among them, but \<open>defectiveUnits\<close>; \<open>defectiveUnits\<close> changes
  only on a slot of the requested hour, to the value of the request. Every other slot
  of the result was created by the update for one of the hours, with the operator and
  the mold of the request, and its \<open>defectiveUnits\<close> is 0 unless it is the slot of the
  requested hour. Afterwards the \<open>defectiveUnits\<close> of the record is the sum over its
  slots.
\<close>

theorem assignOnRecord_frame:
  "length (hourlyData r) \<le> length (hourlyData (assignOnRecord ts h vo vm du r)) \<and>
   (\<forall>i<length (hourlyData r).
      hourlyData (assignOnRecord ts h vo vm du r) ! i
        = (hourlyData r ! i)\<lparr>defectiveUnits :=
             defectiveUnits (hourlyData (assignOnRecord ts h vo vm du r) ! i)\<rparr> \<and>
      (defectiveUnits (hourlyData (assignOnRecord ts h vo vm du r) ! i)
         = defectiveUnits (hourlyData r ! i) \<or>
       hour (hourlyData r ! i) = h \<and>
       du = Some (defectiveUnits (hourlyData (assignOnRecord ts h vo vm du r) ! i)))) \<and>
   (\<forall>i. length (hourlyData r) \<le> i \<and>
        i < length (hourlyData (assignOnRecord ts h vo vm du r)) \<longrightarrow>
      (\<exists>t\<in>set ts.
         hourlyData (assignOnRecord ts h vo vm du r) ! i
           = (newAssignmentSlot t vo vm)\<lparr>defectiveUnits :=
                defectiveUnits (hourlyData (assignOnRecord ts h vo vm du r) ! i)\<rparr> \<and>
         (defectiveUnits (hourlyData (assignOnRecord ts h vo vm du r) ! i) = 0 \<or>
          t = h \<and>
          du = Some (defectiveUnits (hourlyData (assignOnRecord ts h vo vm du r) ! i))))) \<and>
   r_defectiveUnits (assignOnRecord ts h vo vm du r)
     = sum_list (map defectiveUnits (hourlyData (assignOnRecord ts h vo vm du r)))"
proof -
  have hd: "hourlyData (assignOnRecord ts h vo vm du r)
            = foldl (updateHour h vo vm du) (hourlyData r) ts"
    by (simp add: assignOnRecord_def Let_def)
  have d: "r_defectiveUnits (assignOnRecord ts h vo vm du r)
     = sum_list (map defectiveUnits (hourlyData (assignOnRecord ts h vo vm du r)))"
    by (simp add: assignOnRecord_def Let_def sumDefective_sum_list)
  from foldl_updateHour [of "hourlyData r" h vo vm du ts] d
  show ?thesis unfolding hd [symmetric] keeps_def
    by (simp add: newAssignmentSlot_def)
qed

text \<open>Operator B and mold B assigned to the night shift from hour 23, with 5 defective
  units, on the record whose hour 23 was worked by operator A: hour 23 keeps operator A
  and mold A and takes the 5 units; hour 22 is created for operator B and mold B.\<close>

theorem assignOnRecord_frame_witness:
  "map (\<lambda>s. (hour s, operatorId s, moldId s, defectiveUnits s, unitsProduced s))
     (hourlyData (assignOnRecord (hoursToUpdate [nightShift] 23 True) 23
        (Some ''opB'') (Some ''moldB'') (Some 5) workedRecord))
   = [(23, Some ''opA'', Some ''moldA'', 5, 40), (22, Some ''opB'', Some ''moldB'', 0, 0)] \<and>
   r_defectiveUnits (assignOnRecord (hoursToUpdate [nightShift] 23 True) 23
        (Some ''opB'') (Some ''moldB'') (Some 5) workedRecord) = 5"
  using assignOnRecord_frame
    [of workedRecord "hoursToUpdate [nightShift] 23 True" 23 "Some ''opB''" "Some ''moldB''"
      "Some 5"]
  by (simp add: hoursToUpdate_def shiftContaining_def shiftContains_def nightShift_def
      hourOf_examples numLe_def numLt_def pushHours_def hoursFromTo_upto upto.simps
      assignOnRecord_def updateHour_def workedRecord_def newAssignmentSlot_def
      sumDefective_def Let_def)

text \<open>An assignment with defective units for an hour without a slot: the slot saved is
  the copy taken when the new slot was pushed (line 374), so that the defective units
  which line 380 gives to the route's own object are not in the store, nor in the total
  of the record.\<close>

lemma assignment_route_new_slot_defective_not_saved:
  "map (\<lambda>r. (r_defectiveUnits r, map (\<lambda>h. (hour h, defectiveUnits h)) (hourlyData r)))
     (productionRecords
        (snd (assignment_route (\<lambda>r. True) (\<lambda>s. None) machineStore ghostAssignment)))
   = [(0, [(8, 0)])]"
  by (simp add: assignment_route_def validOperator_def validMold_def nonEmpty_def
      ghostAssignment_def machineStore_def findRecord_def hoursToUpdate_def
      assignOnRecord_def updateHour_def newAssignmentSlot_def newProductionRecord_def
      sumDefective_def orZero_def Let_def)

section \<open>Unknown machines\<close>

lemma findRecord_Some:
  "findRecord mid d rs = Some i \<Longrightarrow> i < length rs \<and> machineId (rs ! i) = mid"
  by (simp add: findRecord_def findIndex_Some_iff)

lemma machineId_stoppageOnRecord:
  "stoppageOnRecord now b r = Some r' \<Longrightarrow> machineId r' = machineId r"
  by (auto simp: stoppageOnRecord_def split: option.splits)

lemma machineId_assignOnRecord: "machineId (assignOnRecord ts h vo vm du r) = machineId r"
  by (simp add: assignOnRecord_def Let_def)

text \<open>The record that a write route works on is a record of the machine of the request.\<close>

lemma machineId_found_or_new:
  "machineId (case findRecord mid d rs of
                Some i \<Rightarrow> rs ! i
              | None \<Rightarrow> newProductionRecord mid start) = mid"
  by (auto simp: newProductionRecord_def dest: findRecord_Some split: option.splits)

lemma machineId_saved:
  assumes "machineId r = mid"
  shows "mid \<in> set (map machineId
                   (case findRecord mid d rs of Some i \<Rightarrow> rs[i := r] | None \<Rightarrow> rs @ [r]))"
proof (cases "findRecord mid d rs")
  case None
  with assms show ?thesis by simp
next
  case (Some i)
  from findRecord_Some [OF Some] have "i < length (rs[i := r])" "rs[i := r] ! i = r"
    by simp_all
  then have "r \<in> set (rs[i := r])" by (metis nth_mem)
  with assms Some show ?thesis by auto
qed

text \<open>The answers of the stoppage route: 400 from the check of the SAP notification
  number, 500 from a rejected save, and 201.\<close>

lemma stoppage_route_code:
  "code (fst (stoppage_route saves store now b)) \<in> {400, 500, 201}"
  by (simp add: stoppage_route_def Let_def split: option.splits)

lemma assignment_route_code:
  "code (fst (assignment_route saves toId store a)) \<in> {400, 500, 200}"
  by (simp add: assignment_route_def Let_def split: sum.splits)

lemma stoppage_route_writes_machine:
  assumes "code (fst (stoppage_route saves store now b)) = 201"
  shows "b_machineId b
         \<in> set (map machineId (productionRecords (snd (stoppage_route saves store now b))))"
proof -
  define rs where "rs = productionRecords store"
  define r0 where "r0 = (case findRecord (b_machineId b) (b_date b) rs of
      Some i \<Rightarrow> rs ! i
    | None \<Rightarrow> newProductionRecord (b_machineId b) (dayStartUTC (b_date b)))"
  from assms obtain r where r: "stoppageOnRecord now b r0 = Some r"
    and s: "productionRecords (snd (stoppage_route saves store now b))
            = (case findRecord (b_machineId b) (b_date b) rs of
                 Some i \<Rightarrow> rs[i := r] | None \<Rightarrow> rs @ [r])"
    by (auto simp: stoppage_route_def Let_def r0_def rs_def split: if_splits option.splits)
  have "machineId r0 = b_machineId b"
    unfolding r0_def by (rule machineId_found_or_new)
  with machineId_stoppageOnRecord [OF r] have "machineId r = b_machineId b" by simp
  then show ?thesis unfolding s by (rule machineId_saved)
qed

lemma assignment_route_writes_machine:
  assumes "code (fst (assignment_route saves toId store a)) = 200"
  shows "a_machineId a
         \<in> set (map machineId
                  (productionRecords (snd (assignment_route saves toId store a))))"
proof -
  from assms obtain vo vm
    where v: "validOperator toId (userDocs store) (a_operatorId a) = Inr vo"
      "validMold toId (a_moldId a) = Inr vm"
    by (auto simp: assignment_route_def split: sum.splits)
  define r where "r = assignOnRecord
     (hoursToUpdate (case config store of None \<Rightarrow> [] | Some c \<Rightarrow> shifts c)
        (a_hour a) (a_applyToShift a))
     (a_hour a) vo vm (a_defectiveUnits a)
     (case findRecord (a_machineId a) (a_date a) (productionRecords store) of
        Some i \<Rightarrow> productionRecords store ! i
      | None \<Rightarrow> newProductionRecord (a_machineId a) (dayStartUTC (a_date a)))"
  have eq: "assignment_route saves toId store a =
     (if saves r then
        (Message 200 ''Production assignment updated successfully'',
         store\<lparr>productionRecords :=
           (case findRecord (a_machineId a) (a_date a) (productionRecords store) of
              Some i \<Rightarrow> (productionRecords store)[i := r]
               | None \<Rightarrow> productionRecords store @ [r])\<rparr>)
      else (Message 500 ''Server error'', store))"
    unfolding r_def using v by (simp add: assignment_route_def Let_def)
  from assms have "saves r" unfolding eq by (simp split: if_splits)
  then have s: "productionRecords (snd (assignment_route saves toId store a))
            = (case findRecord (a_machineId a) (a_date a) (productionRecords store) of
                 Some i \<Rightarrow> (productionRecords store)[i := r]
               | None \<Rightarrow> productionRecords store @ [r])"
    unfolding eq by simp
  have "machineId r = a_machineId a"
    unfolding r_def by (simp add: machineId_assignOnRecord machineId_found_or_new)
  then show ?thesis unfolding s by (rule machineId_saved)
qed

lemma stoppage_route_ignores_machines:
  "stoppage_route saves (store\<lparr>machines := ms\<rparr>) now b
   = (fst (stoppage_route saves store now b),
      (snd (stoppage_route saves store now b))\<lparr>machines := ms\<rparr>)"
  by (simp add: stoppage_route_def Let_def split: option.splits)

lemma assignment_route_ignores_machines:
  "assignment_route saves toId (store\<lparr>machines := ms\<rparr>) a
   = (fst (assignment_route saves toId store a),
      (snd (assignment_route saves toId store a))\<lparr>machines := ms\<rparr>)"
  by (simp add: assignment_route_def Let_def split: sum.splits)

text \<open>
  Claim C9, as amended: the two read operations answer 404 when the machine does not
  resolve (they write nothing: they return an answer only). The two write operations do
  not resolve the machine and never refuse a request for it: what they answer and what
  they write is the same whatever machines the store knows, their answers are 400 (a
  validation), 500 (a rejected save) and 201 (200 for an assignment), never 404, and an
  operation answered 201 (200 for an assignment) leaves a production record of the
  submitted machine id in the store.
\<close>

theorem unknown_machine_reads_404_writes_proceed:
  "(findMachine store mid = None \<longrightarrow>
      timeline_route store user mid now = Message 404 ''Machine not found'' \<and>
      stats_route store user mid period now = Message 404 ''Machine not found'') \<and>
   stoppage_route saves (store\<lparr>machines := ms\<rparr>) now b
     = (fst (stoppage_route saves store now b),
        (snd (stoppage_route saves store now b))\<lparr>machines := ms\<rparr>) \<and>
   assignment_route saves toId (store\<lparr>machines := ms\<rparr>) a
     = (fst (assignment_route saves toId store a),
        (snd (assignment_route saves toId store a))\<lparr>machines := ms\<rparr>) \<and>
   code (fst (stoppage_route saves store now b)) \<in> {400, 500, 201} \<and>
   code (fst (assignment_route saves toId store a)) \<in> {400, 500, 200} \<and>
   (code (fst (stoppage_route saves store now b)) = 201 \<longrightarrow>
      b_machineId b
      \<in> set (map machineId (productionRecords (snd (stoppage_route saves store now b))))) \<and>
   (code (fst (assignment_route saves toId store a)) = 200 \<longrightarrow>
      a_machineId a
      \<in> set (map machineId
               (productionRecords (snd (assignment_route saves toId store a)))))"
proof -
  have reads: "timeline_route store user mid now = Message 404 ''Machine not found'' \<and>
      stats_route store user mid period now = Message 404 ''Machine not found''"
    if "findMachine store mid = None"
    using that by (simp add: timeline_route_def stats_route_def Let_def)
  from reads stoppage_route_writes_machine [of saves store now b]
    assignment_route_writes_machine [of saves toId store a]
    stoppage_route_code [of saves store now b] assignment_route_code [of saves toId store a]
  show ?thesis
    by (simp add: stoppage_route_ignores_machines assignment_route_ignores_machines)
qed

text \<open>Machine G7 in the store that knows machine M1 only, with a store that accepts
  every document: the reads answer 404, the writes are answered 201 and 200 and each
  leaves a record of G7.\<close>

theorem unknown_machine_reads_404_writes_proceed_witness:
  "findMachine machineStore ''G7'' = None \<and>
   timeline_route machineStore admin ''G7'' 0 = Message 404 ''Machine not found'' \<and>
   stats_route machineStore admin ''G7'' None 0 = Message 404 ''Machine not found'' \<and>
   code (fst (stoppage_route (\<lambda>r. True) machineStore 0 ghostStoppage)) = 201 \<and>
   ''G7'' \<in> set (map machineId
                (productionRecords
                   (snd (stoppage_route (\<lambda>r. True) machineStore 0 ghostStoppage)))) \<and>
   code (fst (assignment_route (\<lambda>r. True) (\<lambda>s. None) machineStore ghostAssignment)) = 200 \<and>
   ''G7'' \<in> set (map machineId
                (productionRecords
                   (snd (assignment_route (\<lambda>r. True) (\<lambda>s. None) machineStore
                           ghostAssignment))))"
proof -
  have f: "findMachine machineStore ''G7'' = None"
    by (simp add: findMachine_def machineStore_def)
  have s: "code (fst (stoppage_route (\<lambda>r. True) machineStore 0 ghostStoppage)) = 201"
    by (simp add: stoppage_route_def ghostStoppage_def machineStore_def findRecord_def
        stoppageOnRecord_def newProductionRecord_def Let_def)
  have a: "code (fst (assignment_route (\<lambda>r. True) (\<lambda>s. None) machineStore ghostAssignment))
           = 200"
    by (simp add: assignment_route_def validOperator_def validMold_def nonEmpty_def
        ghostAssignment_def Let_def)
  from unknown_machine_reads_404_writes_proceed
    [of machineStore "''G7''" admin 0 None "\<lambda>r. True" "machines machineStore" ghostStoppage
      "\<lambda>s. None" ghostAssignment] f s a
  show ?thesis by (simp add: ghostStoppage_def ghostAssignment_def)
qed

text \<open>
  Claim C9 as stated fails: the store knows no machine G7, yet the stoppage submitted for
  it is not refused: it is answered 201 and a production record of G7 is created.
\<close>

theorem stoppage_route_writes_for_unknown_machine:
  "findMachine machineStore ''G7'' = None \<and>
   productionRecords machineStore = [] \<and>
   fst (stoppage_route (\<lambda>r. True) machineStore 0 ghostStoppage)
     = Message 201 ''Stoppage recorded successfully'' \<and>
   map (\<lambda>r. (machineId r, map hour (hourlyData r)))
     (productionRecords (snd (stoppage_route (\<lambda>r. True) machineStore 0 ghostStoppage)))
   = [(''G7'', [8])]"
  by (simp add: machineStore_def findMachine_def ghostStoppage_def stoppage_route_def
      findRecord_def stoppageOnRecord_def newStoppageSlot_def newProductionRecord_def
      Let_def)

section \<open>The timeline\<close>










text \<open>Every slot that the two write routes create or change carries a status of its
  own, so that the timeline derives a status only for hours without a slot and for slots
  of other writers.\<close>

lemma route_slots_carry_status:
  "nonEmpty (status (newStoppageSlot h :: ('o, 'm) HourSlot)) = Some ''stoppage''"
  "nonEmpty (status (newAssignmentSlot t vo vm)) = Some ''inactive''"
  "stoppageOnSlot now b s = Some s' \<Longrightarrow> nonEmpty (status s') = Some ''stoppage''"
  by (simp_all add: newStoppageSlot_def newAssignmentSlot_def nonEmpty_def
      stoppageOnSlot_status)



lemma nth_upto_hours: "0 \<le> h \<Longrightarrow> h \<le> 23 \<Longrightarrow> map f [0..23] ! nat h = f h"
proof -
  assume h: "0 \<le> h" "h \<le> 23"
  then have "nat h < length [0..(23::int)]" by simp
  then have "map f [0..23] ! nat h = f ([0..23] ! nat h)" by (rule nth_map)
  also from h have "[0..23] ! nat h = h" by (simp add: nth_upto)
  finally show ?thesis .
qed

text \<open>
  Claim C10: in the entry of an hour of the timeline, the operator is the operator of
  the slot of the hour when the slot has one, and otherwise the operator of the record of
  the day; it is absent exactly when neither has one. The same holds for the mold. The
  entry of hour \<open>h\<close> is the one at position \<open>h\<close> of the day.
\<close>

theorem hourEntry_operator_mold_fallback:
  "(\<forall>x. Option.bind (findHourData dayRecord h) operatorId = Some x \<longrightarrow>
        operator (hourEntry dayRecord h) = Some x) \<and>
   (Option.bind (findHourData dayRecord h) operatorId = None \<longrightarrow>
      operator (hourEntry dayRecord h) = Option.bind dayRecord r_operatorId) \<and>
   (operator (hourEntry dayRecord h) = None \<longleftrightarrow>
      Option.bind (findHourData dayRecord h) operatorId = None \<and>
      Option.bind dayRecord r_operatorId = None) \<and>
   (\<forall>x. Option.bind (findHourData dayRecord h) moldId = Some x \<longrightarrow>
        mold (hourEntry dayRecord h) = Some x) \<and>
   (Option.bind (findHourData dayRecord h) moldId = None \<longrightarrow>
      mold (hourEntry dayRecord h) = Option.bind dayRecord r_moldId) \<and>
   (mold (hourEntry dayRecord h) = None \<longleftrightarrow>
      Option.bind (findHourData dayRecord h) moldId = None \<and>
      Option.bind dayRecord r_moldId = None) \<and>
   (0 \<le> h \<and> h \<le> 23 \<longrightarrow>
      hours (dayEntry records d) ! nat h
        = hourEntry (findDayRecord records (d - d mod msPerDay)) h)"
proof -
  have "hours (dayEntry records d) ! nat h
        = hourEntry (findDayRecord records (d - d mod msPerDay)) h"
    if "0 \<le> h" "h \<le> 23"
    using that by (simp add: dayEntry_def Let_def nth_upto_hours)
  then show ?thesis
    by (auto simp: hourEntry_def Let_def split: option.splits)
qed

text \<open>The record of operator R and mold R whose slot of hour 8 has operator 8 and no
  mold: hour 8 shows operator 8 and mold R, hour 9, which has no slot, operator R and
  mold R, and without a record both are absent.\<close>

theorem hourEntry_operator_mold_fallback_witness:
  "operator (hourEntry (Some (sensorRecord 50 10)) 8) = Some ''op8'' \<and>
   mold (hourEntry (Some (sensorRecord 50 10)) 8) = Some ''moldR'' \<and>
   operator (hourEntry (Some (sensorRecord 50 10)) 9) = Some ''opR'' \<and>
   mold (hourEntry (Some (sensorRecord 50 10)) 9) = Some ''moldR'' \<and>
   operator (hourEntry (None :: (objectId, objectId) ProductionRecord option) 8) = None \<and>
   hours (dayEntry [sensorRecord 50 10] 30000000) ! 8
     = hourEntry (Some (sensorRecord 50 10)) 8"
proof -
  have h8: "Option.bind (findHourData (Some (sensorRecord 50 10)) 8) operatorId = Some ''op8''"
    "Option.bind (findHourData (Some (sensorRecord 50 10)) 8) moldId = None"
    by (simp_all add: findHourData_def sensorRecord_def sensorSlot_def)
  have h9: "Option.bind (findHourData (Some (sensorRecord 50 10)) 9) operatorId = None"
    "Option.bind (findHourData (Some (sensorRecord 50 10)) 9) moldId = None"
    by (simp_all add: findHourData_def sensorRecord_def sensorSlot_def)
  have r: "r_operatorId (sensorRecord 50 10) = Some ''opR''"
    "r_moldId (sensorRecord 50 10) = Some ''moldR''"
    by (simp_all add: sensorRecord_def)
  have n: "findHourData (None :: (objectId, objectId) ProductionRecord option) 8 = None"
    "operator (hourEntry (None :: (objectId, objectId) ProductionRecord option) 8) = None"
    by (simp_all add: findHourData_def hourEntry_def)
  have d: "findDayRecord [sensorRecord 50 10] (30000000 - 30000000 mod msPerDay)
           = Some (sensorRecord 50 10)"
    by (simp add: findDayRecord_def msPerDay_def sensorRecord_def)
  from hourEntry_operator_mold_fallback
      [of "Some (sensorRecord 50 10)" 8 "[sensorRecord 50 10]" 30000000]
    hourEntry_operator_mold_fallback
      [of "Some (sensorRecord 50 10)" 9 "[sensorRecord 50 10]" 30000000]
    hourEntry_operator_mold_fallback
      [of "None :: (objectId, objectId) ProductionRecord option" 8 "[]" 0]
  show ?thesis by (simp add: h8 h9 r n d)
qed

section \<open>The statistics\<close>

lemma foldl_records_slots:
  "foldl (\<lambda>t r. foldl g t (hourlyData r)) t rs = foldl g t (slotsOf rs)"
  by (induction rs arbitrary: t) (simp_all add: slotsOf_def)

lemma foldl_countBreakdown:
  "foldl countBreakdown t ss =
     t\<lparr>breakdownStoppages := breakdownStoppages t + int (length (filter isBreakdown ss)),
       totalBreakdownMinutes :=
         totalBreakdownMinutes t + sum_list (map (\<lambda>s. orZero (duration s)) (filter isBreakdown ss))\<rparr>"
  by (induction ss arbitrary: t) (simp_all add: countBreakdown_def isBreakdown_def)

lemma accumulateHour_fields:
  "totalRunningMinutes (accumulateHour cap t h) = totalRunningMinutes t + runningMinutes h"
  "totalStoppageMinutes (accumulateHour cap t h) = totalStoppageMinutes t + stoppageMinutes h"
  "totalStoppages (accumulateHour cap t h) = totalStoppages t + int (length (stoppages h))"
  "breakdownStoppages (accumulateHour cap t h)
     = breakdownStoppages t + int (length (filter isBreakdown (stoppages h)))"
  "totalBreakdownMinutes (accumulateHour cap t h)
     = totalBreakdownMinutes t
       + sum_list (map (\<lambda>s. orZero (duration s)) (filter isBreakdown (stoppages h)))"
  "totalExpectedUnits (accumulateHour cap t h) = totalExpectedUnits t + timeShare cap h"
  by (simp_all add: accumulateHour_def Let_def foldl_countBreakdown timeShare_def
      split: option.splits)

lemma foldl_accumulateHour_fields:
  "totalRunningMinutes (foldl (accumulateHour cap) t hs)
     = totalRunningMinutes t + sum_list (map runningMinutes hs)"
  "totalStoppageMinutes (foldl (accumulateHour cap) t hs)
     = totalStoppageMinutes t + sum_list (map stoppageMinutes hs)"
  "breakdownStoppages (foldl (accumulateHour cap) t hs)
     = breakdownStoppages t + int (length (filter isBreakdown (concat (map stoppages hs))))"
  "totalBreakdownMinutes (foldl (accumulateHour cap) t hs)
     = totalBreakdownMinutes t
       + sum_list (map (\<lambda>s. orZero (duration s)) (filter isBreakdown (concat (map stoppages hs))))"
  "totalExpectedUnits (foldl (accumulateHour cap) t hs)
     = totalExpectedUnits t + sum_list (map (timeShare cap) hs)"
  by (induction hs arbitrary: t) (simp_all add: accumulateHour_fields)

lemma foldl_addCapacity:
  "foldl (addCapacity cap) e hs = e + sum_list (map (flatShare cap) hs)"
  by (induction hs arbitrary: e) (simp_all add: addCapacity_def flatShare_def split: option.splits)

lemma firstPass_fields:
  "totalRunningMinutes (firstPass cap rs) = sum_list (map runningMinutes (slotsOf rs))"
  "totalStoppageMinutes (firstPass cap rs) = sum_list (map stoppageMinutes (slotsOf rs))"
  "breakdownStoppages (firstPass cap rs)
     = int (length (filter isBreakdown (concat (map stoppages (slotsOf rs)))))"
  "totalBreakdownMinutes (firstPass cap rs)
     = sum_list (map (\<lambda>s. orZero (duration s))
         (filter isBreakdown (concat (map stoppages (slotsOf rs)))))"
  "totalExpectedUnits (firstPass cap rs) = sum_list (map (timeShare cap) (slotsOf rs))"
  unfolding firstPass_def foldl_records_slots
  by (simp_all add: foldl_accumulateHour_fields zeroTotals_def)

lemma secondPass_sum:
  "secondPass cap e rs = e + sum_list (map (flatShare cap) (slotsOf rs))"
  unfolding secondPass_def foldl_records_slots by (rule foldl_addCapacity)

lemma scenario_capacity: "slotCapacity (moldCapacity scenarioStore) (scenarioSlot h) = Some 120"
  by (simp add: slotCapacity_def moldCapacity_def findMold_def scenarioStore_def scenarioSlot_def)

lemma scenario_running: "runningMinutes (scenarioSlot h) = 60"
  by (simp add: scenarioSlot_def)

text \<open>The answer of the statistics for the scenario: 480 running and 120 stoppage
  minutes, an availability of 80, a quality of 95, a performance of 52 and an overall
  effectiveness of 40 percent.\<close>

lemma statsJson_scenario:
  "statsJson ''running'' (computeStats (moldCapacity scenarioStore) [scenarioRecord]) =
     \<lparr>j_totalUnitsProduced = 1000, j_totalDefectiveUnits = 50, j_oee = Some 40, j_mtbf = Some 0,
      j_mttr = Some 0, j_availability = Some 80, j_quality = Some 95, j_performance = Some 52,
      j_currentStatus = ''running'', j_totalRunningMinutes = 480, j_totalStoppageMinutes = 120,
      j_breakdownStoppages = 0, j_totalBreakdownMinutes = 0\<rparr>"
proof -
  have hd: "hourlyData scenarioRecord = map scenarioSlot [8, 9, 10, 11, 12, 13, 14, 15]"
    by (simp add: scenarioRecord_def)
  have s: "stoppages (scenarioSlot h) = []" "stoppageMinutes (scenarioSlot h) = 15" for h
    by (simp_all add: scenarioSlot_def)
  have t: "totalRunningMinutes (firstPass (moldCapacity scenarioStore) [scenarioRecord]) = 480"
    "totalStoppageMinutes (firstPass (moldCapacity scenarioStore) [scenarioRecord]) = 120"
    "breakdownStoppages (firstPass (moldCapacity scenarioStore) [scenarioRecord]) = 0"
    "totalBreakdownMinutes (firstPass (moldCapacity scenarioStore) [scenarioRecord]) = 0"
    "totalExpectedUnits (firstPass (moldCapacity scenarioStore) [scenarioRecord]) = 960"
    by (simp_all add: firstPass_fields slotsOf_def hd s scenario_running timeShare_def scenario_capacity)
  have e: "secondPass (moldCapacity scenarioStore) 960 [scenarioRecord] = 1920"
    by (simp add: secondPass_sum slotsOf_def hd flatShare_def scenario_capacity)
  have u: "r_unitsProduced scenarioRecord = 1000" "r_defectiveUnits scenarioRecord = 50"
    by (simp_all add: scenarioRecord_def)
  show ?thesis
    by (simp add: statsJson_def computeStats_def Let_def t e u percent_def divide_js_def
        times_js_def round_js_def)
qed

text \<open>
  Claim C2: the expected units of a record set are accumulated twice over the same hours.
  For every hour slot whose mold has a capacity, the first pass adds the capacity divided
  by 60 times the running minutes of the slot, and the second pass adds the capacity
  itself; the total is the sum of both over all slots of all records. The performance is
  the units produced divided by that total (when the total is positive; 0 otherwise, see
  claim C7).
\<close>

theorem computeStats_expected_units_twice:
  "expectedUnits (computeStats cap rs)
     = sum_list (map (\<lambda>h. case slotCapacity cap h of None \<Rightarrow> 0
                         | Some c \<Rightarrow> real_of_int c / 60 * real_of_int (runningMinutes h))
                 (concat (map hourlyData rs)))
       + sum_list (map (\<lambda>h. case slotCapacity cap h of None \<Rightarrow> 0 | Some c \<Rightarrow> real_of_int c)
                   (concat (map hourlyData rs))) \<and>
   totalUnitsProduced (computeStats cap rs) = sum_list (map r_unitsProduced rs) \<and>
   performance (computeStats cap rs)
     = (if expectedUnits (computeStats cap rs) > 0
        then Some (real_of_int (totalUnitsProduced (computeStats cap rs))
                     / expectedUnits (computeStats cap rs))
        else Some 0)"
proof -
  have e: "expectedUnits (computeStats cap rs)
           = sum_list (map (timeShare cap) (slotsOf rs)) + sum_list (map (flatShare cap) (slotsOf rs))"
    by (simp add: computeStats_def Let_def secondPass_sum firstPass_fields)
  have u: "totalUnitsProduced (computeStats cap rs) = sum_list (map r_unitsProduced rs)"
    by (simp add: computeStats_def Let_def foldl_add_sum_list)
  have p: "performance (computeStats cap rs)
     = (if expectedUnits (computeStats cap rs) > 0
        then Some (real_of_int (totalUnitsProduced (computeStats cap rs))
                     / expectedUnits (computeStats cap rs))
        else Some 0)"
    by (simp add: computeStats_def Let_def divide_js_def)
  from e u p show ?thesis
    by (simp add: timeShare_def [abs_def] flatShare_def [abs_def] slotsOf_def)
qed

text \<open>The scenario: eight hours on the mold of capacity 120 with 60 running minutes each
  give 960 expected units in the first pass and 960 more in the second; 1000 units
  produced make a performance of 1000 / 1920, sent as 52 percent.\<close>

theorem computeStats_expected_units_twice_witness:
  "expectedUnits (computeStats (moldCapacity scenarioStore) [scenarioRecord]) = 1920 \<and>
   performance (computeStats (moldCapacity scenarioStore) [scenarioRecord]) = Some (1000 / 1920) \<and>
   j_performance (statsJson ''running'' (computeStats (moldCapacity scenarioStore) [scenarioRecord])) = Some 52"
proof -
  have u: "r_unitsProduced scenarioRecord = 1000"
    "hourlyData scenarioRecord = map scenarioSlot [8, 9, 10, 11, 12, 13, 14, 15]"
    by (simp_all add: scenarioRecord_def)
  from computeStats_expected_units_twice [of "moldCapacity scenarioStore" "[scenarioRecord]"]
  have e: "expectedUnits (computeStats (moldCapacity scenarioStore) [scenarioRecord]) = 1920"
    and p: "performance (computeStats (moldCapacity scenarioStore) [scenarioRecord]) = Some (1000 / 1920)"
    by (simp_all add: u scenario_capacity scenario_running)
  have "round_js (1000 / 1920 * 100) = 52"
    by (simp add: round_js_def)
  with e p show ?thesis by (simp add: statsJson_def percent_def)
qed

text \<open>
  Claim C7: no ratio of the statistics is the result of a division by zero. The
  availability is 0 when the running and the stoppage minutes add up to 0, the quality is
  0 when no unit was produced, the performance is 0 when no unit was expected, and the
  mean times between failures and to repair are 0 when there was no breakdown. The
  breakdowns counted, and the minutes added up for them, are those of the stoppages whose
  reason is breakdown. No ratio of the answer is sent as \<open>null\<close>.
\<close>

theorem computeStats_ratios_defined:
  "availability (computeStats cap rs) \<noteq> None \<and>
   quality (computeStats cap rs) \<noteq> None \<and>
   performance (computeStats cap rs) \<noteq> None \<and>
   oee (computeStats cap rs) \<noteq> None \<and>
   mtbf (computeStats cap rs) \<noteq> None \<and>
   mttr (computeStats cap rs) \<noteq> None \<and>
   (totalRunningMinutes (totals (computeStats cap rs))
      + totalStoppageMinutes (totals (computeStats cap rs)) = 0 \<longrightarrow>
    availability (computeStats cap rs) = Some 0) \<and>
   (totalUnitsProduced (computeStats cap rs) = 0 \<longrightarrow> quality (computeStats cap rs) = Some 0) \<and>
   (expectedUnits (computeStats cap rs) = 0 \<longrightarrow> performance (computeStats cap rs) = Some 0) \<and>
   (breakdownStoppages (totals (computeStats cap rs)) = 0 \<longrightarrow>
    mtbf (computeStats cap rs) = Some 0 \<and> mttr (computeStats cap rs) = Some 0) \<and>
   breakdownStoppages (totals (computeStats cap rs))
     = int (length (filter (\<lambda>s. reason s = ''breakdown'')
         (concat (map stoppages (concat (map hourlyData rs)))))) \<and>
   totalBreakdownMinutes (totals (computeStats cap rs))
     = sum_list (map (\<lambda>s. orZero (duration s))
         (filter (\<lambda>s. reason s = ''breakdown'')
            (concat (map stoppages (concat (map hourlyData rs)))))) \<and>
   j_availability (statsJson st (computeStats cap rs)) \<noteq> None \<and>
   j_quality (statsJson st (computeStats cap rs)) \<noteq> None \<and>
   j_performance (statsJson st (computeStats cap rs)) \<noteq> None \<and>
   j_oee (statsJson st (computeStats cap rs)) \<noteq> None \<and>
   j_mtbf (statsJson st (computeStats cap rs)) \<noteq> None \<and>
   j_mttr (statsJson st (computeStats cap rs)) \<noteq> None"
proof -
  have a: "availability (computeStats cap rs) \<noteq> None" "quality (computeStats cap rs) \<noteq> None"
    "performance (computeStats cap rs) \<noteq> None" "mtbf (computeStats cap rs) \<noteq> None"
    "mttr (computeStats cap rs) \<noteq> None"
    by (simp_all add: computeStats_def Let_def divide_js_def)
  then have o: "oee (computeStats cap rs) \<noteq> None"
    by (auto simp: computeStats_def Let_def times_js_def divide_js_def split: option.splits)
  have z: "totalRunningMinutes (totals (computeStats cap rs))
      + totalStoppageMinutes (totals (computeStats cap rs)) = 0 \<longrightarrow>
    availability (computeStats cap rs) = Some 0"
    "totalUnitsProduced (computeStats cap rs) = 0 \<longrightarrow> quality (computeStats cap rs) = Some 0"
    "expectedUnits (computeStats cap rs) = 0 \<longrightarrow> performance (computeStats cap rs) = Some 0"
    "breakdownStoppages (totals (computeStats cap rs)) = 0 \<longrightarrow>
    mtbf (computeStats cap rs) = Some 0 \<and> mttr (computeStats cap rs) = Some 0"
    by (simp_all add: computeStats_def Let_def)
  have b: "breakdownStoppages (totals (computeStats cap rs))
     = int (length (filter (\<lambda>s. reason s = ''breakdown'')
         (concat (map stoppages (concat (map hourlyData rs))))))"
   "totalBreakdownMinutes (totals (computeStats cap rs))
     = sum_list (map (\<lambda>s. orZero (duration s))
         (filter (\<lambda>s. reason s = ''breakdown'')
            (concat (map stoppages (concat (map hourlyData rs))))))"
    by (simp_all add: computeStats_def Let_def firstPass_fields slotsOf_def isBreakdown_def [abs_def])
  from a o have j: "j_availability (statsJson st (computeStats cap rs)) \<noteq> None"
   "j_quality (statsJson st (computeStats cap rs)) \<noteq> None"
   "j_performance (statsJson st (computeStats cap rs)) \<noteq> None"
   "j_oee (statsJson st (computeStats cap rs)) \<noteq> None"
   "j_mtbf (statsJson st (computeStats cap rs)) \<noteq> None"
   "j_mttr (statsJson st (computeStats cap rs)) \<noteq> None"
    by (simp_all add: statsJson_def percent_def)
  from a o z b j show ?thesis by simp
qed

text \<open>An empty record set, and the scenario, which has no breakdown.\<close>

theorem computeStats_ratios_defined_witness:
  "availability (computeStats (moldCapacity scenarioStore) []) = Some 0 \<and>
   quality (computeStats (moldCapacity scenarioStore) []) = Some 0 \<and>
   performance (computeStats (moldCapacity scenarioStore) []) = Some 0 \<and>
   mtbf (computeStats (moldCapacity scenarioStore) []) = Some 0 \<and>
   mttr (computeStats (moldCapacity scenarioStore) []) = Some 0 \<and>
   breakdownStoppages (totals (computeStats (moldCapacity scenarioStore) [scenarioRecord])) = 0 \<and>
   mtbf (computeStats (moldCapacity scenarioStore) [scenarioRecord]) = Some 0 \<and>
   mttr (computeStats (moldCapacity scenarioStore) [scenarioRecord]) = Some 0"
proof -
  have z: "totalRunningMinutes (totals (computeStats (moldCapacity scenarioStore) []))
      + totalStoppageMinutes (totals (computeStats (moldCapacity scenarioStore) [])) = 0"
   "totalUnitsProduced (computeStats (moldCapacity scenarioStore) []) = 0"
   "expectedUnits (computeStats (moldCapacity scenarioStore) []) = 0"
    by (simp_all add: computeStats_def Let_def firstPass_def secondPass_def zeroTotals_def)
  have b: "breakdownStoppages (totals (computeStats (moldCapacity scenarioStore) [])) = 0"
    "breakdownStoppages (totals (computeStats (moldCapacity scenarioStore) [scenarioRecord])) = 0"
    by (simp_all add: computeStats_def Let_def firstPass_fields slotsOf_def scenarioRecord_def
        scenarioSlot_def)
  note empty = computeStats_ratios_defined [of "moldCapacity scenarioStore" "[]" "''running''"]
  note scenario = computeStats_ratios_defined [of "moldCapacity scenarioStore" "[scenarioRecord]" "''running''"]
  from empty z have r1: "availability (computeStats (moldCapacity scenarioStore) []) = Some 0"
    "quality (computeStats (moldCapacity scenarioStore) []) = Some 0"
    "performance (computeStats (moldCapacity scenarioStore) []) = Some 0"
    by blast+
  from empty b(1) have r2: "mtbf (computeStats (moldCapacity scenarioStore) []) = Some 0"
    "mttr (computeStats (moldCapacity scenarioStore) []) = Some 0"
    by blast+
  from scenario b(2)
  have r3: "mtbf (computeStats (moldCapacity scenarioStore) [scenarioRecord]) = Some 0"
    "mttr (computeStats (moldCapacity scenarioStore) [scenarioRecord]) = Some 0"
    by blast+
  from r1 r2 r3 b show ?thesis by simp
qed

end
